theory Spec2Isabelle
  imports Complex_Main
begin

section \<open>Data model\<close>

text \<open>
  JavaScript numbers are modelled as exact reals: rounding, NaN and the infinities of IEEE
  doubles are outside the model. Objects created by the host or by the rendering library
  (meshes, render textures, geometries) are known by a handle; what the module asks of them
  is recorded, in order, in the host's trace.
\<close>

type_synonym handle = nat

datatype source_class = GlobalLightSource | LightSource | VisionSource | SoundSource

datatype renderer_class = ShadowTextureRenderer | ShadowVisionLOSTextureRenderer

datatype layer = Background | Coloration | Illumination

text \<open>The names of the owned assets, as \<open>destroyRenderedPointSource\<close> lists them.\<close>

datatype asset = ShadowQuadMesh | ShadowRenderer | ShadowMesh | WallGeometry | ShadowVisionMask
  | ShadowVisionLOSMask | ShadowVisionLOSMesh | ShadowVisionLOSRenderer | LosGeometry

datatype error = TypeError | Exception string

text \<open>The calls the module makes on its collaborators.\<close>

datatype event =
    Wrapped_configure
  | Wrapped_destroy
  | RenderTexture_create handle real real real
  | Render handle "real \<times> real" handle
  | SetResolution handle real
  | Resize handle real real
  | RenderTexture_destroy handle
  | RefreshWalls handle
  | UpdateLightPosition handle
  | Triangulate handle
  | UpdateGeometry handle
  | RemoveChild handle
  | Destroy asset
  | New_wallGeometry
  | New asset handle
  | Set_EVshadows layer bool
  | Set_uEVShadowSampler layer handle

record host =
  trace :: "event list"
  fresh :: handle

definition emit :: "event \<Rightarrow> host \<Rightarrow> host" where
  "emit e h = h\<lparr>trace := trace h @ [e]\<rparr>"

definition alloc :: "host \<Rightarrow> handle \<times> host" where
  "alloc h = (fresh h, h\<lparr>fresh := Suc (fresh h)\<rparr>)"

definition new_events :: "host \<Rightarrow> host \<Rightarrow> event list" where
  "new_events h h' = drop (length (trace h)) (trace h')"

text \<open>\<open>canvas.dimensions\<close>, the optional container \<open>canvas.effects.EVshadows\<close> and the
  scene's shading setting (whether it is the WebGL algorithm).\<close>

record canvas =
  dimensions_width :: real
  dimensions_height :: real
  EVshadows :: bool
  shading_webgl :: bool

text \<open>A PIXI render texture: its handle and the size and resolution it was last given.\<close>

record render_texture =
  rt_id :: handle
  rt_width :: real
  rt_height :: real
  rt_resolution :: real

text \<open>
  A \<open>ShadowTextureRenderer\<close> or its subclass. Its \<open>source\<close> field aliases the source that
  owns the cache the renderer is stored in, so the renderer's methods take that source as
  an argument.
\<close>

record renderer =
  rclass :: renderer_class
  mesh :: handle
  renderTexture :: render_texture

record visionMask =
  vm_id :: handle
  vm_position :: "real \<times> real"
  vm_scale :: "real \<times> real"

text \<open>
  The module's property on a source (\<open>source[MODULE_ID]\<close>). The wall geometry class
  (\<open>SourceShadowWallGeometry.js\<close>) is not modelled; its state is the type parameter \<open>'g\<close>.
\<close>

record 'g ev =
  shadowQuadMesh :: "handle option"
  shadowRenderer :: "renderer option"
  shadowMesh :: "handle option"
  wallGeometry :: "'g option"
  shadowVisionMask :: "visionMask option"
  shadowVisionLOSMask :: "handle option"
  shadowVisionLOSMesh :: "handle option"
  shadowVisionLOSRenderer :: "renderer option"
  losGeometry :: "handle option"
  geom :: "handle option"

record 'g source =
  src_class :: source_class
  src_x :: real
  src_y :: real
  radius :: real
  ev :: "'g ev option"

section \<open>ShadowTextureRenderer\<close>

definition MAX_TEXTURE_SIZE :: real where
  "MAX_TEXTURE_SIZE = 4096"

definition width :: "canvas \<Rightarrow> 'g source \<Rightarrow> renderer \<Rightarrow> real" where
  "width cv src r =
     (case rclass r of
        ShadowTextureRenderer \<Rightarrow> radius src * 2
      | ShadowVisionLOSTextureRenderer \<Rightarrow> dimensions_width cv)"

definition height :: "canvas \<Rightarrow> 'g source \<Rightarrow> renderer \<Rightarrow> real" where
  "height cv src r =
     (case rclass r of
        ShadowTextureRenderer \<Rightarrow> radius src * 2
      | ShadowVisionLOSTextureRenderer \<Rightarrow> dimensions_height cv)"

definition resolution :: "canvas \<Rightarrow> 'g source \<Rightarrow> renderer \<Rightarrow> real" where
  "resolution cv src r =
     (let w = width cv src r;
          h = height cv src r;
          resolution0 = 1;
          maxSize = min MAX_TEXTURE_SIZE (resolution0 * max w h)
      in if w \<ge> h then maxSize / w else maxSize / h)"

definition topLeft :: "canvas \<Rightarrow> 'g source \<Rightarrow> renderer \<Rightarrow> real \<times> real" where
  "topLeft cv src r =
     (case rclass r of
        ShadowTextureRenderer \<Rightarrow>
          (src_x src + - width cv src r * 0.5, src_y src + - height cv src r * 0.5)
      | ShadowVisionLOSTextureRenderer \<Rightarrow> (0, 0))"

definition renderShadowMeshToTexture :: "canvas \<Rightarrow> 'g source \<Rightarrow> renderer \<Rightarrow> host \<Rightarrow> host" where
  "renderShadowMeshToTexture cv src r h =
     (let tl = topLeft cv src r
      in emit (Render (mesh r) (- fst tl, - snd tl) (rt_id (renderTexture r))) h)"

definition configureTexture :: "canvas \<Rightarrow> 'g source \<Rightarrow> renderer \<Rightarrow> real \<times> real \<times> real" where
  "configureTexture cv src r = (width cv src r, height cv src r, resolution cv src r)"

text \<open>The constructor: \<open>new ShadowTextureRenderer(source, mesh)\<close>, or the subclass \<open>c\<close>.\<close>

definition new_renderer :: "renderer_class \<Rightarrow> canvas \<Rightarrow> 'g source \<Rightarrow> handle \<Rightarrow> host \<Rightarrow> renderer \<times> host" where
  "new_renderer c cv src m h =
     (let (t, h1) = alloc h;
          r0 = \<lparr>rclass = c, mesh = m,
                renderTexture = \<lparr>rt_id = t, rt_width = 0, rt_height = 0, rt_resolution = 0\<rparr>\<rparr>;
          (w, ht, res) = configureTexture cv src r0;
          r = r0\<lparr>renderTexture := \<lparr>rt_id = t, rt_width = w, rt_height = ht, rt_resolution = res\<rparr>\<rparr>
      in (r, emit (RenderTexture_create t w ht res) h1))"

definition updateSourceRadius :: "canvas \<Rightarrow> 'g source \<Rightarrow> renderer \<Rightarrow> host \<Rightarrow> renderer \<times> host" where
  "updateSourceRadius cv src r h =
     (let t = renderTexture r;
          res = resolution cv src r;
          h1 = emit (SetResolution (rt_id t) res) h;
          t1 = t\<lparr>rt_resolution := res\<rparr>;
          w = width cv src r;
          ht = height cv src r;
          h2 = emit (Resize (rt_id t) w ht) h1;
          t2 = t1\<lparr>rt_width := w, rt_height := ht\<rparr>;
          r2 = r\<lparr>renderTexture := t2\<rparr>
      in (r2, renderShadowMeshToTexture cv src r2 h2))"

definition update :: "canvas \<Rightarrow> 'g source \<Rightarrow> renderer \<Rightarrow> host \<Rightarrow> host" where
  "update cv src r h = renderShadowMeshToTexture cv src r h"

definition destroy :: "renderer \<Rightarrow> host \<Rightarrow> host" where
  "destroy r h = emit (RenderTexture_destroy (rt_id (renderTexture r))) h"

section \<open>Wraps of the source's configure and destroy methods\<close>

text \<open>
  \<open>updateLOSGeometryVisionSource\<close>: the host's mesher triangulates into the geometry it is
  given, or into a new one when the cache has none yet.
\<close>

definition updateLOSGeometryVisionSource :: "'g ev \<Rightarrow> host \<Rightarrow> 'g ev \<times> host" where
  "updateLOSGeometryVisionSource e h =
     (case losGeometry e of
        Some g \<Rightarrow> (e, emit (Triangulate g) h)
      | None \<Rightarrow> (let (g, h1) = alloc h
                 in (e\<lparr>losGeometry := Some g\<rparr>, emit (Triangulate g) h1)))"

text \<open>The block run when position, elevation or radius changed.\<close>

definition refreshSource :: "'g source \<Rightarrow> 'g ev \<Rightarrow> host \<Rightarrow> 'g ev \<times> host" where
  "refreshSource this e h =
     (let h1 = (case geom e of Some g \<Rightarrow> emit (RefreshWalls g) h | None \<Rightarrow> h);
          h2 = (case shadowMesh e of Some m \<Rightarrow> emit (UpdateLightPosition m) h1 | None \<Rightarrow> h1);
          h3 = (case shadowVisionLOSMesh e of
                  Some m \<Rightarrow> emit (UpdateLightPosition m) h2 | None \<Rightarrow> h2)
      in if src_class this = VisionSource then updateLOSGeometryVisionSource e h3 else (e, h3))"

text \<open>
  \<open>ev.shadowQuadMesh?.updateGeometry(ev.shadowRenderer.sourceBounds)\<close>: nothing when the
  quad mesh is unset; reading \<open>sourceBounds\<close> of an unset renderer throws.
\<close>

definition updateQuadMesh :: "'g ev \<Rightarrow> host \<Rightarrow> error + host" where
  "updateQuadMesh e h =
     (case shadowQuadMesh e of
        None \<Rightarrow> Inr h
      | Some q \<Rightarrow>
          (case shadowRenderer e of
             None \<Rightarrow> Inl TypeError
           | Some r \<Rightarrow> Inr (emit (UpdateGeometry q) h)))"

definition changedPositionBranch ::
  "canvas \<Rightarrow> 'g source \<Rightarrow> 'g ev \<Rightarrow> host \<Rightarrow> error option \<times> 'g source \<times> host" where
  "changedPositionBranch cv this e h =
     (let h1 = (case shadowRenderer e of Some r \<Rightarrow> update cv this r h | None \<Rightarrow> h);
          h2 = (case shadowVisionLOSRenderer e of Some r \<Rightarrow> update cv this r h1 | None \<Rightarrow> h1)
      in case updateQuadMesh e h2 of
           Inl err \<Rightarrow> (Some err, this\<lparr>ev := Some e\<rparr>, h2)
         | Inr h3 \<Rightarrow>
             (case shadowVisionMask e of
                None \<Rightarrow> (Some TypeError, this\<lparr>ev := Some e\<rparr>, h3)
              | Some m \<Rightarrow>
                  (None,
                   this\<lparr>ev := Some (e\<lparr>shadowVisionMask :=
                                     Some (m\<lparr>vm_position := (src_x this, src_y this)\<rparr>)\<rparr>)\<rparr>,
                   h3)))"

definition changedRadiusBranch ::
  "canvas \<Rightarrow> 'g source \<Rightarrow> 'g ev \<Rightarrow> host \<Rightarrow> error option \<times> 'g source \<times> host" where
  "changedRadiusBranch cv this e h =
     (let (e1, h1) =
            (case shadowRenderer e of
               Some r \<Rightarrow> (let (r', h') = updateSourceRadius cv this r h
                          in (e\<lparr>shadowRenderer := Some r'\<rparr>, h'))
             | None \<Rightarrow> (e, h))
      in case updateQuadMesh e1 h1 of
           Inl err \<Rightarrow> (Some err, this\<lparr>ev := Some e1\<rparr>, h1)
         | Inr h2 \<Rightarrow>
             (case shadowVisionMask e1 of
                None \<Rightarrow> (Some TypeError, this\<lparr>ev := Some e1\<rparr>, h2)
              | Some m \<Rightarrow>
                  (None,
                   this\<lparr>ev := Some (e1\<lparr>shadowVisionMask :=
                                      Some (m\<lparr>vm_scale := (radius this, radius this)\<rparr>)\<rparr>)\<rparr>,
                   h2)))"

definition changedElevationBranch ::
  "canvas \<Rightarrow> 'g source \<Rightarrow> 'g ev \<Rightarrow> host \<Rightarrow> error option \<times> 'g source \<times> host" where
  "changedElevationBranch cv this e h =
     (let h1 = (case shadowRenderer e of Some r \<Rightarrow> update cv this r h | None \<Rightarrow> h);
          h2 = (case shadowVisionLOSRenderer e of Some r \<Rightarrow> update cv this r h1 | None \<Rightarrow> h1)
      in (None, this\<lparr>ev := Some e\<rparr>, h2))"

text \<open>
  \<open>_configureRenderedPointSource\<close>. \<open>this\<close> is the source after the host has stored its
  new data; \<open>changes\<close> is the set of keys of the \<open>changes\<close> object. The result is the error
  thrown, if any, with the source and the host as they are when the call ends.
\<close>

definition configureRenderedPointSource ::
  "canvas \<Rightarrow> string set \<Rightarrow> 'g source \<Rightarrow> host \<Rightarrow> error option \<times> 'g source \<times> host" where
  "configureRenderedPointSource cv changes this h0 =
     (let h = emit Wrapped_configure h0
      in case ev this of
           None \<Rightarrow> (None, this, h)
         | Some e \<Rightarrow>
             (let changedPosition = (''x'' \<in> changes \<or> ''y'' \<in> changes);
                  changedRadius = (''radius'' \<in> changes);
                  changedElevation = (''elevation'' \<in> changes);
                  (e1, h1) = (if changedPosition \<or> changedElevation \<or> changedRadius
                              then refreshSource this e h else (e, h))
              in if changedPosition then changedPositionBranch cv this e1 h1
                 else if changedRadius then changedRadiusBranch cv this e1 h1
                 else if changedElevation then changedElevationBranch cv this e1 h1
                 else (None, this\<lparr>ev := Some e1\<rparr>, h1)))"

text \<open>
  What \<open>ev[asset]\<close> reads: nothing when the property is unset, else one of the module's
  renderers or an object of the host or the rendering library.
\<close>

datatype obj = Renderer_obj renderer | Other_obj

fun get_asset :: "asset \<Rightarrow> 'g ev \<Rightarrow> obj option" where
  "get_asset ShadowQuadMesh e = map_option (\<lambda>a. Other_obj) (shadowQuadMesh e)"
| "get_asset ShadowRenderer e = map_option Renderer_obj (shadowRenderer e)"
| "get_asset ShadowMesh e = map_option (\<lambda>a. Other_obj) (shadowMesh e)"
| "get_asset WallGeometry e = map_option (\<lambda>a. Other_obj) (wallGeometry e)"
| "get_asset ShadowVisionMask e = map_option (\<lambda>a. Other_obj) (shadowVisionMask e)"
| "get_asset ShadowVisionLOSMask e = map_option (\<lambda>a. Other_obj) (shadowVisionLOSMask e)"
| "get_asset ShadowVisionLOSMesh e = map_option (\<lambda>a. Other_obj) (shadowVisionLOSMesh e)"
| "get_asset ShadowVisionLOSRenderer e = map_option Renderer_obj (shadowVisionLOSRenderer e)"
| "get_asset LosGeometry e = map_option (\<lambda>a. Other_obj) (losGeometry e)"

text \<open>\<open>ev[asset] = undefined\<close>\<close>

fun set_undefined :: "asset \<Rightarrow> 'g ev \<Rightarrow> 'g ev" where
  "set_undefined ShadowQuadMesh e = e\<lparr>shadowQuadMesh := None\<rparr>"
| "set_undefined ShadowRenderer e = e\<lparr>shadowRenderer := None\<rparr>"
| "set_undefined ShadowMesh e = e\<lparr>shadowMesh := None\<rparr>"
| "set_undefined WallGeometry e = e\<lparr>wallGeometry := None\<rparr>"
| "set_undefined ShadowVisionMask e = e\<lparr>shadowVisionMask := None\<rparr>"
| "set_undefined ShadowVisionLOSMask e = e\<lparr>shadowVisionLOSMask := None\<rparr>"
| "set_undefined ShadowVisionLOSMesh e = e\<lparr>shadowVisionLOSMesh := None\<rparr>"
| "set_undefined ShadowVisionLOSRenderer e = e\<lparr>shadowVisionLOSRenderer := None\<rparr>"
| "set_undefined LosGeometry e = e\<lparr>losGeometry := None\<rparr>"

text \<open>\<open>ev[asset].destroy()\<close>: a call on an unset property throws.\<close>

fun call_destroy :: "asset \<Rightarrow> obj option \<Rightarrow> host \<Rightarrow> error + host" where
  "call_destroy a None h = Inl TypeError"
| "call_destroy a (Some (Renderer_obj r)) h = Inr (destroy r h)"
| "call_destroy a (Some Other_obj) h = Inr (emit (Destroy a) h)"

definition assets :: "asset list" where
  "assets = [ShadowQuadMesh, ShadowRenderer, ShadowMesh, WallGeometry, ShadowVisionMask,
             ShadowVisionLOSMask, ShadowVisionLOSMesh, ShadowVisionLOSRenderer, LosGeometry]"

text \<open>The loop over the asset names.\<close>

fun destroy_assets :: "asset list \<Rightarrow> 'g ev \<Rightarrow> host \<Rightarrow> error option \<times> 'g ev \<times> host" where
  "destroy_assets [] e h = (None, e, h)"
| "destroy_assets (a # as) e h =
     (if get_asset a e = None then destroy_assets as e h
      else case call_destroy a (get_asset a e) h of
             Inl err \<Rightarrow> (Some err, e, h)
           | Inr h1 \<Rightarrow> destroy_assets as (set_undefined a e) h1)"

text \<open>
  \<open>destroyRenderedPointSource\<close>: the error thrown, if any, with the source and the host
  as they are when the call ends.
\<close>

definition destroyRenderedPointSource ::
  "canvas \<Rightarrow> 'g source \<Rightarrow> host \<Rightarrow> error option \<times> 'g source \<times> host" where
  "destroyRenderedPointSource cv this h =
     (case ev this of
        None \<Rightarrow> (None, this, emit Wrapped_destroy h)
      | Some e \<Rightarrow>
          (let h1 = (case shadowQuadMesh e of
                       Some q \<Rightarrow> if EVshadows cv then emit (RemoveChild q) h else h
                     | None \<Rightarrow> h)
           in case destroy_assets assets e h1 of
                (Some err, e2, h2) \<Rightarrow> (Some err, this\<lparr>ev := Some e2\<rparr>, h2)
              | (None, e2, h2) \<Rightarrow> (None, this\<lparr>ev := Some e2\<rparr>, emit Wrapped_destroy h2)))"

section \<open>Hooks\<close>

definition empty_ev :: "'g ev" where
  "empty_ev = \<lparr>shadowQuadMesh = None, shadowRenderer = None, shadowMesh = None,
               wallGeometry = None, shadowVisionMask = None, shadowVisionLOSMask = None,
               shadowVisionLOSMesh = None, shadowVisionLOSRenderer = None,
               losGeometry = None, geom = None\<rparr>"

text \<open>Building the shadow mesh, when the cache has none; the mesh in the cache is returned.\<close>

definition init_shadowMesh :: "canvas \<Rightarrow> 'g ev \<Rightarrow> host \<Rightarrow> handle \<times> 'g ev \<times> host" where
  "init_shadowMesh cv e h =
     (case shadowMesh e of
        Some m \<Rightarrow> (m, e, h)
      | None \<Rightarrow>
          (let (m, h1) = alloc h;
               h2 = emit (New ShadowMesh m) h1;
               EVshadows' = shading_webgl cv;
               h3 = emit (Set_EVshadows Background EVshadows') h2;
               h4 = emit (Set_EVshadows Coloration EVshadows') h3;
               h5 = emit (Set_EVshadows Illumination EVshadows') h4
           in (m, e\<lparr>shadowMesh := Some m\<rparr>, h5)))"

text \<open>Building the render texture, when the cache has none, and rendering to it.\<close>

definition init_shadowRenderer ::
  "canvas \<Rightarrow> 'g source \<Rightarrow> handle \<Rightarrow> 'g ev \<Rightarrow> host \<Rightarrow> renderer \<times> 'g ev \<times> host" where
  "init_shadowRenderer cv source m e h =
     (let (r, e1, h1) =
            (case shadowRenderer e of
               Some r \<Rightarrow> (r, e, h)
             | None \<Rightarrow> (let (r, h') = new_renderer ShadowTextureRenderer cv source m h
                        in (r, e\<lparr>shadowRenderer := Some r\<rparr>, h')))
      in (r, e1, renderShadowMeshToTexture cv source r h1))"

definition init_shadowVisionMask :: "'g source \<Rightarrow> 'g ev \<Rightarrow> host \<Rightarrow> 'g ev \<times> host" where
  "init_shadowVisionMask source e h =
     (case shadowVisionMask e of
        Some m \<Rightarrow> (e, h)
      | None \<Rightarrow>
          (let (v, h1) = alloc h;
               m = \<lparr>vm_id = v, vm_position = (src_x source, src_y source),
                    vm_scale = (radius source, radius source)\<rparr>
           in (e\<lparr>shadowVisionMask := Some m\<rparr>, emit (New ShadowVisionMask v) h1)))"

text \<open>For a vision source without a line-of-sight mesh: the mesh, its renderer, the
  line-of-sight geometry and the mask.\<close>

definition init_visionLOS :: "canvas \<Rightarrow> 'g source \<Rightarrow> 'g ev \<Rightarrow> host \<Rightarrow> 'g ev \<times> host" where
  "init_visionLOS cv source e h =
     (if src_class source = VisionSource \<and> shadowVisionLOSMesh e = None
      then (let (lm, h1) = alloc h;
                h2 = emit (New ShadowVisionLOSMesh lm) h1;
                e2 = e\<lparr>shadowVisionLOSMesh := Some lm\<rparr>;
                (lr, h3) = new_renderer ShadowVisionLOSTextureRenderer cv source lm h2;
                e3 = e2\<lparr>shadowVisionLOSRenderer := Some lr\<rparr>;
                h4 = renderShadowMeshToTexture cv source lr h3;
                (e5, h5) = updateLOSGeometryVisionSource e3 h4;
                (k, h6) = alloc h5
            in (e5\<lparr>shadowVisionLOSMask := Some k\<rparr>, emit (New ShadowVisionLOSMask k) h6))
      else (e, h))"

definition init_shadowQuadMesh :: "'g ev \<Rightarrow> host \<Rightarrow> 'g ev \<times> host" where
  "init_shadowQuadMesh e h =
     (case shadowQuadMesh e of
        Some q \<Rightarrow> (e, h)
      | None \<Rightarrow> (let (q, h1) = alloc h
                 in (e\<lparr>shadowQuadMesh := Some q\<rparr>, emit (New ShadowQuadMesh q) h1)))"

text \<open>
  \<open>initializeSourceShadersHook\<close>. The constructor of the wall geometry is the parameter
  \<open>newGeometry\<close>.
\<close>

definition initializeSourceShadersHook ::
  "('g source \<Rightarrow> 'g) \<Rightarrow> canvas \<Rightarrow> 'g source \<Rightarrow> host \<Rightarrow> 'g source \<times> host" where
  "initializeSourceShadersHook newGeometry cv source h =
     (if src_class source = GlobalLightSource then (source, h)
      else
        (let e0 = (case ev source of Some e \<Rightarrow> e | None \<Rightarrow> empty_ev);
             (e1, h1) = (case wallGeometry e0 of
                           Some g \<Rightarrow> (e0, h)
                         | None \<Rightarrow> (e0\<lparr>wallGeometry := Some (newGeometry source)\<rparr>,
                                    emit New_wallGeometry h));
             (m, e2, h2) = init_shadowMesh cv e1 h1;
             (r, e3, h3) = init_shadowRenderer cv source m e2 h2;
             (e4, h4) = init_shadowVisionMask source e3 h3;
             (e5, h5) = init_visionLOS cv source e4 h4;
             (e6, h6) = init_shadowQuadMesh e5 h5;
             t = rt_id (renderTexture r);
             h7 = emit (Set_uEVShadowSampler Illumination t) h6;
             h8 = emit (Set_uEVShadowSampler Coloration t) h7;
             h9 = emit (Set_uEVShadowSampler Background t) h8
         in (source\<lparr>ev := Some e6\<rparr>, h9)))"

text \<open>A wall document: its id and the wall placeable (\<open>wallD.object\<close>).\<close>

record 'w wallDocument =
  wd_id :: nat
  wd_object :: 'w

text \<open>The sources of the canvas, in the three collections the wall hooks read.\<close>

record 'g source_collections =
  lightSources :: "'g source list"
  visionSources :: "'g source list"
  soundSources :: "'g source list"

definition all_sources :: "'g source_collections \<Rightarrow> 'g source list" where
  "all_sources c = lightSources c @ visionSources c @ soundSources c"

text \<open>\<open>for ( const src of sources ) { ... }\<close>, the body given as a function.\<close>

fun for_sources ::
  "('g source \<Rightarrow> host \<Rightarrow> 'g source \<times> host) \<Rightarrow> 'g source list \<Rightarrow> host \<Rightarrow> 'g source list \<times> host" where
  "for_sources body [] h = ([], h)"
| "for_sources body (src # srcs) h =
     (let (src', h1) = body src h;
          (srcs', h2) = for_sources body srcs h1
      in (src' # srcs', h2))"

text \<open>
  The body shared by the three wall hooks: skip a source without the module's property,
  apply the operation to the wall geometry if there is one, update the renderer if there
  is one. The operations of the wall geometry (\<open>addWall\<close>, \<open>updateWall\<close>, \<open>removeWall\<close>)
  are parameters; what they return is not read by the hooks.
\<close>

definition wallHook_body ::
  "canvas \<Rightarrow> ('g \<Rightarrow> 'g) \<Rightarrow> 'g source \<Rightarrow> host \<Rightarrow> 'g source \<times> host" where
  "wallHook_body cv op src h =
     (case ev src of
        None \<Rightarrow> (src, h)
      | Some e \<Rightarrow>
          (let e1 = e\<lparr>wallGeometry := map_option op (wallGeometry e)\<rparr>;
               h1 = (case shadowRenderer e1 of Some r \<Rightarrow> update cv src r h | None \<Rightarrow> h)
           in (src\<lparr>ev := Some e1\<rparr>, h1)))"

definition createWallHook ::
  "('w \<Rightarrow> 'g \<Rightarrow> 'g) \<Rightarrow> canvas \<Rightarrow> 'w wallDocument \<Rightarrow> 'g source_collections \<Rightarrow> host
     \<Rightarrow> 'g source list \<times> host" where
  "createWallHook addWall cv wallD c h =
     for_sources (wallHook_body cv (addWall (wd_object wallD))) (all_sources c) h"

text \<open>
  \<open>updateWallHook\<close>: \<open>changes\<close> is the set of keys of the flattened update data;
  \<open>WALL_COORDINATES\<close> and \<open>WALL_RESTRICTED\<close> are the two lists of
  \<open>SourceShadowWallGeometry.CHANGE_FLAGS\<close>.
\<close>

definition updateWallHook ::
  "string list \<Rightarrow> string list \<Rightarrow> ('w \<Rightarrow> string set \<Rightarrow> 'g \<Rightarrow> 'g) \<Rightarrow> canvas \<Rightarrow> 'w wallDocument
     \<Rightarrow> string set \<Rightarrow> 'g source_collections \<Rightarrow> host \<Rightarrow> 'g source list \<times> host" where
  "updateWallHook WALL_COORDINATES WALL_RESTRICTED updateWall cv wallD changes c h =
     (if \<not> (list_ex (\<lambda>f. f \<in> changes) WALL_COORDINATES
             \<or> list_ex (\<lambda>f. f \<in> changes) WALL_RESTRICTED)
      then (all_sources c, h)
      else for_sources (wallHook_body cv (updateWall (wd_object wallD) changes)) (all_sources c) h)"

definition deleteWallHook ::
  "(nat \<Rightarrow> 'g \<Rightarrow> 'g) \<Rightarrow> canvas \<Rightarrow> 'w wallDocument \<Rightarrow> 'g source_collections \<Rightarrow> host
     \<Rightarrow> 'g source list \<times> host" where
  "deleteWallHook removeWall cv wallD c h =
     for_sources (wallHook_body cv (removeWall (wd_id wallD))) (all_sources c) h"

text \<open>
  Modelled from the spec: the code of the wall index (\<open>SourceShadowWallGeometry\<close>) is
  missing. Where a concrete index is needed it is the list of the ids of the walls it
  holds, and \<open>removeWall(id)\<close> is a no-op if the wall is absent.
\<close>

definition index_removeWall :: "nat \<Rightarrow> nat list \<Rightarrow> nat list" where
  "index_removeWall i g = filter (\<lambda>j. j \<noteq> i) g"

section \<open>Patching the lighting fragment shader\<close>

text \<open>
  The \<open>ShaderPatcher\<close> class is imported from \<open>perfect-vision/shader-patcher.js\<close>, whose
  code is missing: its constructor and the four methods used are parameters, each of which
  may throw.
\<close>

record 'p shaderPatcher =
  new_ShaderPatcher :: "string \<Rightarrow> error + 'p"
  setSource :: "'p \<Rightarrow> string \<Rightarrow> error + 'p"
  addUniform :: "'p \<Rightarrow> string \<Rightarrow> string \<Rightarrow> error + 'p"
  replace :: "'p \<Rightarrow> string \<Rightarrow> string \<Rightarrow> error + 'p"
  getSource :: "'p \<Rightarrow> error + string"

text \<open>Sequencing of calls that may throw: the first error ends the chain.\<close>

definition and_then :: "error + 'a \<Rightarrow> ('a \<Rightarrow> error + 'b) \<Rightarrow> error + 'b" where
  "and_then x f = (case x of Inl e \<Rightarrow> Inl e | Inr a \<Rightarrow> f a)"

definition nl :: string where
  "nl = [CHR 0x0A]"

definition shadow_code :: string where
  "shadow_code = nl
     @ ''        if ( uEVShadows ) {'' @ nl
     @ ''          vec4 EV_shadowTexel = texture2D(uEVShadowSampler, vUvs);'' @ nl
     @ ''          float EV_lightAmount = EV_shadowTexel.r;'' @ nl
     @ ''          if ( EV_shadowTexel.g < 0.5) EV_lightAmount *= EV_shadowTexel.b;'' @ nl
     @ ''          depth *= EV_lightAmount;'' @ nl
     @ ''        }'' @ nl
     @ ''        gl_FragColor =''"

text \<open>The chain inside \<open>try\<close>, up to the value that would be assigned to \<open>source\<close>.\<close>

definition patch_chain :: "'p shaderPatcher \<Rightarrow> string \<Rightarrow> error + string" where
  "patch_chain sp source =
     and_then (new_ShaderPatcher sp ''frag'') (\<lambda>p0.
     and_then (setSource sp p0 source) (\<lambda>p1.
     and_then (addUniform sp p1 ''uEVShadowSampler'' ''sampler2D'') (\<lambda>p2.
     and_then (addUniform sp p2 ''uEVShadows'' ''bool'') (\<lambda>p3.
     and_then (replace sp p3 ''gl_FragColor = '' shadow_code) (\<lambda>p4.
     getSource sp p4)))))"

text \<open>
  \<open>addShadowFragmentCode\<close>: the result is the thrown error or the returned string. The
  \<open>return\<close> in the \<open>finally\<close> block replaces whatever the \<open>try\<close> block completed with by
  the current value of \<open>source\<close>, which a throwing chain has not assigned.
\<close>

definition addShadowFragmentCode :: "'p shaderPatcher \<Rightarrow> string \<Rightarrow> error + string" where
  "addShadowFragmentCode sp source =
     (case patch_chain sp source of
        Inl e \<Rightarrow> Inr source
      | Inr patched \<Rightarrow> Inr patched)"

section \<open>Segments of the visibility polygon draft\<close>

record point =
  pt_x :: real
  pt_y :: real

record segment =
  seg_A :: point
  seg_B :: point

text \<open>
  Modelled from the spec: \<open>almostEqual\<close> is imported from \<open>utility.js\<close>, whose code is
  missing. \<open>isEndpoint\<close> takes the comparison as a parameter; this instance, two numbers
  less than epsilon apart, is what the comments of the segment code describe.
\<close>

definition almostEqual :: "real \<Rightarrow> real \<Rightarrow> real \<Rightarrow> bool" where
  "almostEqual a b EPSILON = (\<bar>a - b\<bar> < EPSILON)"

definition EPSILON_default :: real where
  "EPSILON_default = 1 / 100000"

definition isEndpoint :: "(real \<Rightarrow> real \<Rightarrow> real \<Rightarrow> bool) \<Rightarrow> segment \<Rightarrow> point \<Rightarrow> real \<Rightarrow> bool" where
  "isEndpoint almostEq this p EPSILON =
     ((almostEq (pt_x p) (pt_x (seg_A this)) EPSILON \<and>
       almostEq (pt_y p) (pt_y (seg_A this)) EPSILON) \<or>
      (almostEq (pt_x p) (pt_x (seg_A this)) EPSILON \<and>
       almostEq (pt_y p) (pt_y (seg_A this)) EPSILON))"

section \<open>Reading the trace\<close>

fun is_Render :: "event \<Rightarrow> bool" where
  "is_Render (Render m p t) = True"
| "is_Render x = False"

fun is_resize :: "event \<Rightarrow> bool" where
  "is_resize (SetResolution t res) = True"
| "is_resize (Resize t w ht) = True"
| "is_resize x = False"

fun is_New :: "event \<Rightarrow> bool" where
  "is_New (New a k) = True"
| "is_New New_wallGeometry = True"
| "is_New (RenderTexture_create t w ht res) = True"
| "is_New x = False"

fun is_release :: "event \<Rightarrow> bool" where
  "is_release (Destroy a) = True"
| "is_release (RenderTexture_destroy t) = True"
| "is_release x = False"

text \<open>The call that rasterizes the mesh of renderer \<open>r\<close> of source \<open>src\<close>.\<close>

definition render_call :: "canvas \<Rightarrow> 'g source \<Rightarrow> renderer \<Rightarrow> event" where
  "render_call cv src r =
     Render (mesh r) (- fst (topLeft cv src r), - snd (topLeft cv src r)) (rt_id (renderTexture r))"

text \<open>One rasterization for each source of the list whose cache has a shadow renderer.\<close>

fun rasterizations :: "canvas \<Rightarrow> 'g source list \<Rightarrow> event list" where
  "rasterizations cv [] = []"
| "rasterizations cv (src # srcs) =
     (case ev src of
        None \<Rightarrow> []
      | Some e \<Rightarrow> (case shadowRenderer e of None \<Rightarrow> [] | Some r \<Rightarrow> [render_call cv src r]))
     @ rasterizations cv srcs"

text \<open>The release of each asset that is set in a cache, in the order of the asset names.\<close>

fun releases :: "asset list \<Rightarrow> 'g ev \<Rightarrow> event list" where
  "releases [] e = []"
| "releases (a # as) e =
     (case get_asset a e of
        None \<Rightarrow> []
      | Some (Renderer_obj r) \<Rightarrow> [RenderTexture_destroy (rt_id (renderTexture r))]
      | Some Other_obj \<Rightarrow> [Destroy a])
     @ releases as e"

text \<open>The collections with one source taken out: the sources before it and after it.\<close>

definition sources_without :: "'g source list \<Rightarrow> 'g source list \<Rightarrow> 'g source_collections" where
  "sources_without pre post = \<lparr>lightSources = pre @ post, visionSources = [], soundSources = []\<rparr>"

text \<open>What routing a wall operation to a source leaves: the operation applied to the wall
  geometry of its cache, if it has a cache with a wall geometry.\<close>

definition apply_to_index :: "('g \<Rightarrow> 'g) \<Rightarrow> 'g source \<Rightarrow> 'g source" where
  "apply_to_index op src =
     src\<lparr>ev := map_option (\<lambda>e. e\<lparr>wallGeometry := map_option op (wallGeometry e)\<rparr>) (ev src)\<rparr>"

text \<open>Events that neither rasterize, nor resize, nor create anything.\<close>

definition quiet :: "event list \<Rightarrow> bool" where
  "quiet xs = (\<forall>x\<in>set xs. \<not> is_Render x \<and> \<not> is_resize x \<and> \<not> is_New x)"

section \<open>Example scene\<close>

text \<open>
  A scene of 4000 by 3000 with wall 1, a light at (50, 50) whose wall index holds wall 1,
  and a second light at (150, 50) whose index is empty.
\<close>

definition scene_canvas :: canvas where
  "scene_canvas = \<lparr>dimensions_width = 4000, dimensions_height = 3000,
                    EVshadows = False, shading_webgl = True\<rparr>"

definition host0 :: host where
  "host0 = \<lparr>trace = [], fresh = 0\<rparr>"

definition light :: "real \<Rightarrow> real \<Rightarrow> nat list source" where
  "light px rad = \<lparr>src_class = LightSource, src_x = px, src_y = 50, radius = rad, ev = None\<rparr>"

definition global_light :: "nat list source" where
  "global_light = \<lparr>src_class = GlobalLightSource, src_x = 0, src_y = 0, radius = 0, ev = None\<rparr>"

definition first_renderer :: renderer where
  "first_renderer = \<lparr>rclass = ShadowTextureRenderer, mesh = 0,
      renderTexture = \<lparr>rt_id = 1, rt_width = 400, rt_height = 400, rt_resolution = 1\<rparr>\<rparr>"

definition first_cache :: "nat list ev" where
  "first_cache = \<lparr>shadowQuadMesh = Some 3, shadowRenderer = Some first_renderer,
      shadowMesh = Some 0, wallGeometry = Some [1],
      shadowVisionMask = Some \<lparr>vm_id = 2, vm_position = (50, 50), vm_scale = (200, 200)\<rparr>,
      shadowVisionLOSMask = None, shadowVisionLOSMesh = None, shadowVisionLOSRenderer = None,
      losGeometry = None, geom = None\<rparr>"

definition second_renderer :: renderer where
  "second_renderer = \<lparr>rclass = ShadowTextureRenderer, mesh = 4,
      renderTexture = \<lparr>rt_id = 5, rt_width = 400, rt_height = 400, rt_resolution = 1\<rparr>\<rparr>"

definition second_cache :: "nat list ev" where
  "second_cache = \<lparr>shadowQuadMesh = Some 7, shadowRenderer = Some second_renderer,
      shadowMesh = Some 4, wallGeometry = Some [],
      shadowVisionMask = Some \<lparr>vm_id = 6, vm_position = (150, 50), vm_scale = (200, 200)\<rparr>,
      shadowVisionLOSMask = None, shadowVisionLOSMesh = None, shadowVisionLOSRenderer = None,
      losGeometry = None, geom = None\<rparr>"

definition los_renderer :: renderer where
  "los_renderer = \<lparr>rclass = ShadowVisionLOSTextureRenderer, mesh = 8,
      renderTexture = \<lparr>rt_id = 9, rt_width = 4000, rt_height = 3000, rt_resolution = 1\<rparr>\<rparr>"

definition scene_sources :: "nat list source_collections" where
  "scene_sources = \<lparr>lightSources = [(light 50 200)\<lparr>ev := Some first_cache\<rparr>,
                                      (light 150 200)\<lparr>ev := Some second_cache\<rparr>],
                     visionSources = [], soundSources = []\<rparr>"

definition W1 :: "unit wallDocument" where
  "W1 = \<lparr>wd_id = 1, wd_object = ()\<rparr>"

text \<open>A patcher that keeps the source text as its state and whose \<open>replace\<close> throws.\<close>

definition throwing_patcher :: "string shaderPatcher" where
  "throwing_patcher = \<lparr>new_ShaderPatcher = (\<lambda>t. Inr []),
      setSource = (\<lambda>p src. Inr src),
      addUniform = (\<lambda>p name type. Inr (''uniform '' @ type @ '' '' @ name @ '';'' @ nl @ p)),
      replace = (\<lambda>p pattern text. Inl (Exception ''no match'')),
      getSource = (\<lambda>p. Inr p)\<rparr>"

definition segment0 :: segment where
  "segment0 = \<lparr>seg_A = \<lparr>pt_x = 0, pt_y = 0\<rparr>, seg_B = \<lparr>pt_x = 10, pt_y = 0\<rparr>\<rparr>"

text \<open>A cache whose initialization stopped after the renderer was built.\<close>

definition partial_cache :: "nat list ev" where
  "partial_cache = \<lparr>shadowQuadMesh = None, shadowRenderer = Some first_renderer,
      shadowMesh = Some 0, wallGeometry = Some [1], shadowVisionMask = None,
      shadowVisionLOSMask = None, shadowVisionLOSMesh = None, shadowVisionLOSRenderer = None,
      losGeometry = None, geom = None\<rparr>"

text \<open>The scene with a third light, at (250, 50), that has no cache.\<close>

definition three_sources :: "nat list source_collections" where
  "three_sources = \<lparr>lightSources = [(light 50 200)\<lparr>ev := Some first_cache\<rparr>, light 250 100],
                     visionSources = [(light 150 200)\<lparr>ev := Some second_cache\<rparr>],
                     soundSources = []\<rparr>"

text \<open>Two canvases that are not square, for the line-of-sight renderer.\<close>

definition wide_canvas :: canvas where
  "wide_canvas = \<lparr>dimensions_width = 8192, dimensions_height = 4096,
                   EVshadows = False, shading_webgl = True\<rparr>"

definition tall_canvas :: canvas where
  "tall_canvas = \<lparr>dimensions_width = 3000, dimensions_height = 6000,
                   EVshadows = False, shading_webgl = True\<rparr>"

text \<open>The light at (50, 50) with radius 200 after its shaders were initialized on a fresh
  host, and the same light after its cache was then destroyed.\<close>

definition ready_light :: "nat list source \<times> host" where
  "ready_light = initializeSourceShadersHook (\<lambda>s. [1]) scene_canvas (light 50 200) host0"

definition destroyed_light :: "error option \<times> nat list source \<times> host" where
  "destroyed_light = destroyRenderedPointSource scene_canvas (fst ready_light) (snd ready_light)"

section \<open>What the renderer and the configure wrap leave in the trace\<close>

lemma trace_emit: "trace (emit x h) = trace h @ [x]"
  by (simp add: emit_def)

lemma trace_update: "trace (update cv src r h) = trace h @ [render_call cv src r]"
  by (simp add: update_def renderShadowMeshToTexture_def render_call_def trace_emit Let_def)

lemma size_renderTexture [simp]:
  "width cv src (r\<lparr>renderTexture := t\<rparr>) = width cv src r"
  "height cv src (r\<lparr>renderTexture := t\<rparr>) = height cv src r"
  by (simp_all add: width_def height_def)

lemma getters_renderTexture [simp]:
  "resolution cv src (r\<lparr>renderTexture := t\<rparr>) = resolution cv src r"
  "topLeft cv src (r\<lparr>renderTexture := t\<rparr>) = topLeft cv src r"
  by (simp_all add: resolution_def topLeft_def split: renderer_class.split)

lemma is_render_call [simp]: "is_Render (render_call cv src r)" "\<not> is_resize (render_call cv src r)" "\<not> is_New (render_call cv src r)"
  by (simp_all add: render_call_def)

lemma filter_quiet: "quiet xs \<Longrightarrow> filter is_Render xs = [] \<and> filter is_resize xs = [] \<and> filter is_New xs = []"
  by (auto simp: quiet_def filter_empty_conv)

lemma trace_updateLOS:
  "\<exists>xs. trace (snd (updateLOSGeometryVisionSource e h)) = trace h @ xs
        \<and> (\<forall>x\<in>set xs. \<not> is_Render x \<and> \<not> is_resize x \<and> \<not> is_New x)"
  by (simp add: updateLOSGeometryVisionSource_def alloc_def trace_emit split: option.split)

lemma ev_updateLOS:
  "shadowRenderer (fst (updateLOSGeometryVisionSource e h)) = shadowRenderer e"
  "shadowVisionLOSRenderer (fst (updateLOSGeometryVisionSource e h)) = shadowVisionLOSRenderer e"
  "shadowMesh (fst (updateLOSGeometryVisionSource e h)) = shadowMesh e"
  "shadowVisionLOSMesh (fst (updateLOSGeometryVisionSource e h)) = shadowVisionLOSMesh e"
  "shadowVisionMask (fst (updateLOSGeometryVisionSource e h)) = shadowVisionMask e"
  "shadowQuadMesh (fst (updateLOSGeometryVisionSource e h)) = shadowQuadMesh e"
  "wallGeometry (fst (updateLOSGeometryVisionSource e h)) = wallGeometry e"
  by (simp_all add: updateLOSGeometryVisionSource_def alloc_def split: option.split)

lemma trace_refreshSource:
  "\<exists>xs. trace (snd (refreshSource this e h)) = trace h @ xs
        \<and> (\<forall>x\<in>set xs. \<not> is_Render x \<and> \<not> is_resize x \<and> \<not> is_New x)"
proof -
  define h3 where "h3 = (case shadowVisionLOSMesh e of
       Some m \<Rightarrow> emit (UpdateLightPosition m)
         (case shadowMesh e of Some m \<Rightarrow> emit (UpdateLightPosition m) (case geom e of Some g \<Rightarrow> emit (RefreshWalls g) h | None \<Rightarrow> h)
           | None \<Rightarrow> (case geom e of Some g \<Rightarrow> emit (RefreshWalls g) h | None \<Rightarrow> h))
     | None \<Rightarrow> (case shadowMesh e of Some m \<Rightarrow> emit (UpdateLightPosition m) (case geom e of Some g \<Rightarrow> emit (RefreshWalls g) h | None \<Rightarrow> h)
           | None \<Rightarrow> (case geom e of Some g \<Rightarrow> emit (RefreshWalls g) h | None \<Rightarrow> h)))"
  have a: "\<exists>xs. trace h3 = trace h @ xs \<and> (\<forall>x\<in>set xs. \<not> is_Render x \<and> \<not> is_resize x \<and> \<not> is_New x)"
    unfolding h3_def by (simp add: trace_emit split: option.split)
  have r: "refreshSource this e h = (if src_class this = VisionSource then updateLOSGeometryVisionSource e h3 else (e, h3))"
    unfolding refreshSource_def h3_def Let_def by simp
  show ?thesis
  proof (cases "src_class this = VisionSource")
    case True
    obtain ys where ys: "trace (snd (updateLOSGeometryVisionSource e h3)) = trace h3 @ ys"
        "\<forall>x\<in>set ys. \<not> is_Render x \<and> \<not> is_resize x \<and> \<not> is_New x"
      using trace_updateLOS by blast
    from a obtain xs where xs: "trace h3 = trace h @ xs" "\<forall>x\<in>set xs. \<not> is_Render x \<and> \<not> is_resize x \<and> \<not> is_New x" by blast
    have "trace (snd (refreshSource this e h)) = trace h @ (xs @ ys)"
      using True r ys(1) xs(1) by simp
    moreover have "\<forall>x\<in>set (xs @ ys). \<not> is_Render x \<and> \<not> is_resize x \<and> \<not> is_New x"
      using xs(2) ys(2) by auto
    ultimately show ?thesis by blast
  next
    case False
    then show ?thesis using a r by simp
  qed
qed

lemma ev_refreshSource:
  "shadowRenderer (fst (refreshSource this e h)) = shadowRenderer e"
  "shadowVisionLOSRenderer (fst (refreshSource this e h)) = shadowVisionLOSRenderer e"
  "shadowMesh (fst (refreshSource this e h)) = shadowMesh e"
  "shadowVisionLOSMesh (fst (refreshSource this e h)) = shadowVisionLOSMesh e"
  "shadowVisionMask (fst (refreshSource this e h)) = shadowVisionMask e"
  "shadowQuadMesh (fst (refreshSource this e h)) = shadowQuadMesh e"
  "wallGeometry (fst (refreshSource this e h)) = wallGeometry e"
  by (simp_all add: refreshSource_def Let_def ev_updateLOS)

lemma trace_updateQuadMesh:
  "updateQuadMesh e h = Inr h' \<Longrightarrow> \<exists>xs. trace h' = trace h @ xs \<and> quiet xs"
  by (auto simp: updateQuadMesh_def trace_emit quiet_def split: option.splits)

lemma trace_updateSourceRadius:
  "trace (snd (updateSourceRadius cv src r h)) =
     trace h @ [SetResolution (rt_id (renderTexture r)) (resolution cv src r),
                Resize (rt_id (renderTexture r)) (width cv src r) (height cv src r),
                render_call cv src r]"
  by (simp add: updateSourceRadius_def Let_def renderShadowMeshToTexture_def trace_emit
      render_call_def)

lemma fst_updateSourceRadius:
  "fst (updateSourceRadius cv src r h) =
     r\<lparr>renderTexture := (renderTexture r)\<lparr>rt_width := width cv src r,
          rt_height := height cv src r, rt_resolution := resolution cv src r\<rparr>\<rparr>"
  by (simp add: updateSourceRadius_def Let_def)

lemma changedRadiusBranch_effect:
  assumes "shadowRenderer e = Some r"
    and "changedRadiusBranch cv this e h = (err, this', h')"
  shows "\<exists>xs. trace h' = trace h @ [SetResolution (rt_id (renderTexture r)) (resolution cv this r),
                Resize (rt_id (renderTexture r)) (width cv this r) (height cv this r),
                render_call cv this r] @ xs \<and> quiet xs"
    and "map_option shadowRenderer (ev this') = Some (Some (fst (updateSourceRadius cv this r h)))"
    and "map_option shadowMesh (ev this') = Some (shadowMesh e)"
proof -
  obtain r' h1 where u: "updateSourceRadius cv this r h = (r', h1)" by (cases "updateSourceRadius cv this r h")
  have t1: "trace h1 = trace h @ [SetResolution (rt_id (renderTexture r)) (resolution cv this r),
                Resize (rt_id (renderTexture r)) (width cv this r) (height cv this r),
                render_call cv this r]"
    using trace_updateSourceRadius[of cv this r h] u by simp
  let ?e1 = "e\<lparr>shadowRenderer := Some r'\<rparr>"
  have b: "changedRadiusBranch cv this e h =
     (case updateQuadMesh ?e1 h1 of
           Inl err \<Rightarrow> (Some err, this\<lparr>ev := Some ?e1\<rparr>, h1)
         | Inr h2 \<Rightarrow>
             (case shadowVisionMask ?e1 of
                None \<Rightarrow> (Some TypeError, this\<lparr>ev := Some ?e1\<rparr>, h2)
              | Some m \<Rightarrow>
                  (None,
                   this\<lparr>ev := Some (?e1\<lparr>shadowVisionMask :=
                                      Some (m\<lparr>vm_scale := (radius this, radius this)\<rparr>)\<rparr>)\<rparr>,
                   h2)))"
    unfolding changedRadiusBranch_def using assms(1) u by simp
  show "\<exists>xs. trace h' = trace h @ [SetResolution (rt_id (renderTexture r)) (resolution cv this r),
                Resize (rt_id (renderTexture r)) (width cv this r) (height cv this r),
                render_call cv this r] @ xs \<and> quiet xs"
  proof (cases "updateQuadMesh ?e1 h1")
    case (Inl a)
    then have "h' = h1" using b assms(2) by simp
    then show ?thesis using t1 by (simp add: quiet_def)
  next
    case (Inr h2)
    then have "h' = h2" using b assms(2) by (auto split: option.splits)
    moreover obtain xs where "trace h2 = trace h1 @ xs" "quiet xs"
      using trace_updateQuadMesh[OF Inr] by blast
    ultimately show ?thesis using t1 by simp
  qed
  show "map_option shadowRenderer (ev this') = Some (Some (fst (updateSourceRadius cv this r h)))"
    using b assms(2) u by (auto split: sum.splits option.splits)
  show "map_option shadowMesh (ev this') = Some (shadowMesh e)"
    using b assms(2) u by (auto split: sum.splits option.splits)
qed

lemma changedPositionBranch_effect:
  assumes "changedPositionBranch cv this e h = (err, this', h')"
  shows "\<exists>xs. trace h' = trace h @ xs \<and> filter is_resize xs = [] \<and> filter is_New xs = []"
    and "ev this' = Some (e\<lparr>shadowVisionMask := shadowVisionMask (the (ev this'))\<rparr>)"
    and "map_option vm_scale (shadowVisionMask (the (ev this'))) = map_option vm_scale (shadowVisionMask e)"
proof -
  define h1 where "h1 = (case shadowRenderer e of Some r \<Rightarrow> update cv this r h | None \<Rightarrow> h)"
  define h2 where "h2 = (case shadowVisionLOSRenderer e of Some r \<Rightarrow> update cv this r h1 | None \<Rightarrow> h1)"
  have t1: "\<exists>xs. trace h1 = trace h @ xs \<and> filter is_resize xs = [] \<and> filter is_New xs = []"
    unfolding h1_def by (simp add: trace_update split: option.split)
  have t2: "\<exists>xs. trace h2 = trace h1 @ xs \<and> filter is_resize xs = [] \<and> filter is_New xs = []"
    unfolding h2_def by (simp add: trace_update split: option.split)
  have t12: "\<exists>xs. trace h2 = trace h @ xs \<and> filter is_resize xs = [] \<and> filter is_New xs = []"
  proof -
    from t1 obtain xs where xs: "trace h1 = trace h @ xs" "filter is_resize xs = []" "filter is_New xs = []" by blast
    from t2 obtain ys where ys: "trace h2 = trace h1 @ ys" "filter is_resize ys = []" "filter is_New ys = []" by blast
    have "trace h2 = trace h @ (xs @ ys)" using xs(1) ys(1) by simp
    moreover have "filter is_resize (xs @ ys) = []" "filter is_New (xs @ ys) = []"
      using xs ys by simp_all
    ultimately show ?thesis by blast
  qed
  have b: "changedPositionBranch cv this e h =
      (case updateQuadMesh e h2 of
           Inl err \<Rightarrow> (Some err, this\<lparr>ev := Some e\<rparr>, h2)
         | Inr h3 \<Rightarrow>
             (case shadowVisionMask e of
                None \<Rightarrow> (Some TypeError, this\<lparr>ev := Some e\<rparr>, h3)
              | Some m \<Rightarrow>
                  (None,
                   this\<lparr>ev := Some (e\<lparr>shadowVisionMask :=
                                     Some (m\<lparr>vm_position := (src_x this, src_y this)\<rparr>)\<rparr>)\<rparr>,
                   h3)))"
    unfolding changedPositionBranch_def h1_def h2_def Let_def by simp
  show "\<exists>xs. trace h' = trace h @ xs \<and> filter is_resize xs = [] \<and> filter is_New xs = []"
  proof (cases "updateQuadMesh e h2")
    case (Inl a)
    then have "h' = h2" using b assms by simp
    then show ?thesis using t12 by simp
  next
    case (Inr h3)
    then have h': "h' = h3" using b assms by (auto split: option.splits)
    obtain ys where ys: "trace h3 = trace h2 @ ys" "quiet ys"
      using trace_updateQuadMesh[OF Inr] by blast
    from t12 obtain xs where xs: "trace h2 = trace h @ xs" "filter is_resize xs = []" "filter is_New xs = []" by blast
    have "trace h' = trace h @ (xs @ ys)" using h' xs(1) ys(1) by simp
    moreover have "filter is_resize (xs @ ys) = []" "filter is_New (xs @ ys) = []"
      using xs filter_quiet[OF ys(2)] by simp_all
    ultimately show ?thesis by blast
  qed
  show "ev this' = Some (e\<lparr>shadowVisionMask := shadowVisionMask (the (ev this'))\<rparr>)"
    using b assms by (auto split: sum.splits option.splits)
  show "map_option vm_scale (shadowVisionMask (the (ev this'))) = map_option vm_scale (shadowVisionMask e)"
    using b assms by (auto split: sum.splits option.splits)
qed

section \<open>The loop that destroys the assets\<close>

text \<open>
  The asset names are distinct and each round unsets the asset it destroys, so the loop
  releases every set asset once, never throws, and leaves every named asset unset.
\<close>

lemma get_asset_set_undefined:
  "get_asset b (set_undefined a e) = (if a = b then None else get_asset b e)"
  by (cases a; cases b; simp)

lemma all_assets: "a \<in> set assets"
  by (cases a) (simp_all add: assets_def)

lemma distinct_assets: "distinct assets"
  by (simp add: assets_def)

lemma releases_set_undefined: "a \<notin> set as \<Longrightarrow> releases as (set_undefined a e) = releases as e"
  by (induction as) (auto simp: get_asset_set_undefined)

lemma releases_are_releases: "filter is_release (releases as e) = releases as e"
  by (induction as) (auto split: option.split obj.split)

lemma destroy_assets_result:
  "distinct as \<Longrightarrow>
   fst (destroy_assets as e h) = None
   \<and> trace (snd (snd (destroy_assets as e h))) = trace h @ releases as e
   \<and> (\<forall>b. get_asset b (fst (snd (destroy_assets as e h))) = (if b \<in> set as then None else get_asset b e))"
proof (induction as arbitrary: e h)
  case Nil
  then show ?case by simp
next
  case (Cons a as)
  show ?case
  proof (cases "get_asset a e")
    case None
    then show ?thesis using Cons by auto
  next
    case (Some ob)
    show ?thesis
    proof (cases ob)
      case (Renderer_obj r)
      have d: "destroy_assets (a # as) e h = destroy_assets as (set_undefined a e) (destroy r h)"
        using Some Renderer_obj by simp
      have ih: "fst (destroy_assets as (set_undefined a e) (destroy r h)) = None
        \<and> trace (snd (snd (destroy_assets as (set_undefined a e) (destroy r h)))) = trace (destroy r h) @ releases as (set_undefined a e)
        \<and> (\<forall>b. get_asset b (fst (snd (destroy_assets as (set_undefined a e) (destroy r h)))) = (if b \<in> set as then None else get_asset b (set_undefined a e)))"
        using Cons.IH[of "set_undefined a e" "destroy r h"] Cons.prems by simp
      show ?thesis
        unfolding d using ih Some Renderer_obj Cons.prems
        by (auto simp: releases_set_undefined get_asset_set_undefined destroy_def trace_emit)
    next
      case Other_obj
      have d: "destroy_assets (a # as) e h = destroy_assets as (set_undefined a e) (emit (Destroy a) h)"
        using Some Other_obj by simp
      have ih: "fst (destroy_assets as (set_undefined a e) (emit (Destroy a) h)) = None
        \<and> trace (snd (snd (destroy_assets as (set_undefined a e) (emit (Destroy a) h)))) = trace (emit (Destroy a) h) @ releases as (set_undefined a e)
        \<and> (\<forall>b. get_asset b (fst (snd (destroy_assets as (set_undefined a e) (emit (Destroy a) h)))) = (if b \<in> set as then None else get_asset b (set_undefined a e)))"
        using Cons.IH[of "set_undefined a e" "emit (Destroy a) h"] Cons.prems by simp
      show ?thesis
        unfolding d using ih Some Other_obj Cons.prems
        by (auto simp: releases_set_undefined get_asset_set_undefined trace_emit)
    qed
  qed
qed

lemma destroy_assets_nothing:
  "(\<forall>a\<in>set as. get_asset a e = None) \<Longrightarrow> destroy_assets as e h = (None, e, h)"
  by (induction as) auto

lemma destroy_once:
  assumes "ev this = Some e"
  shows "\<exists>e1 pre h1. destroyRenderedPointSource cv this h = (None, this\<lparr>ev := Some e1\<rparr>, h1)
      \<and> (\<forall>a. get_asset a e1 = None)
      \<and> trace h1 = trace h @ pre @ releases assets e @ [Wrapped_destroy]
      \<and> filter is_release pre = []"
proof -
  define h0 where "h0 = (case shadowQuadMesh e of
                       Some q \<Rightarrow> if EVshadows cv then emit (RemoveChild q) h else h
                     | None \<Rightarrow> h)"
  define pre where "pre = (case shadowQuadMesh e of
                       Some q \<Rightarrow> if EVshadows cv then [RemoveChild q] else []
                     | None \<Rightarrow> [])"
  have p: "trace h0 = trace h @ pre" "filter is_release pre = []"
    unfolding h0_def pre_def by (simp_all add: trace_emit split: option.split)
  obtain er e1 h1 where d: "destroy_assets assets e h0 = (er, e1, h1)"
    by (cases "destroy_assets assets e h0")
  have r: "er = None" "trace h1 = trace h0 @ releases assets e" "\<forall>b. get_asset b e1 = None"
    using destroy_assets_result[OF distinct_assets, of e h0] d all_assets by simp_all
  have "destroyRenderedPointSource cv this h = (None, this\<lparr>ev := Some e1\<rparr>, emit Wrapped_destroy h1)"
    using assms d r(1) unfolding destroyRenderedPointSource_def h0_def by simp
  moreover have "trace (emit Wrapped_destroy h1) = trace h @ pre @ releases assets e @ [Wrapped_destroy]"
    using r(2) p(1) by (simp add: trace_emit)
  ultimately show ?thesis using r(3) p(2) by blast
qed

section \<open>The loop of the wall hooks\<close>

lemma for_sources_wallHook_fst:
  "fst (for_sources (wallHook_body cv op) srcs h) = map (apply_to_index op) srcs"
proof (induction srcs arbitrary: h)
  case Nil
  then show ?case by simp
next
  case (Cons src srcs)
  have "fst (wallHook_body cv op src h) = apply_to_index op src"
    by (simp add: wallHook_body_def apply_to_index_def Let_def split: option.split)
  then show ?case using Cons.IH by (simp add: split_def Let_def)
qed

lemma for_sources_wallHook_snd:
  "snd (for_sources (wallHook_body cv op) srcs h) = h\<lparr>trace := trace h @ rasterizations cv srcs\<rparr>"
proof (induction srcs arbitrary: h)
  case Nil
  then show ?case by simp
next
  case (Cons src srcs)
  have "snd (wallHook_body cv op src h) = h\<lparr>trace := trace h @ rasterizations cv [src]\<rparr>"
    by (simp add: wallHook_body_def Let_def update_def renderShadowMeshToTexture_def
        render_call_def emit_def split: option.split)
  then show ?case using Cons.IH by (simp add: split_def Let_def)
qed

lemma for_sources_wallHook:
  "for_sources (wallHook_body cv op) srcs h
     = (map (apply_to_index op) srcs, h\<lparr>trace := trace h @ rasterizations cv srcs\<rparr>)"
  using for_sources_wallHook_fst[of cv op srcs h] for_sources_wallHook_snd[of cv op srcs h]
  by (metis prod.collapse)

lemma for_sources_length: "length (fst (for_sources body srcs h)) = length srcs"
  by (induction srcs arbitrary: h) (simp_all add: split_def Let_def)

lemma for_sources_skip:
  assumes "\<And>k. body src k = (src, k)"
  shows "for_sources body (pre @ src # post) h =
           (take (length pre) (fst (for_sources body (pre @ post) h)) @ src
              # drop (length pre) (fst (for_sources body (pre @ post) h)),
            snd (for_sources body (pre @ post) h))"
proof (induction pre arbitrary: h)
  case Nil
  then show ?case using assms by (simp add: split_def Let_def)
next
  case (Cons p pre)
  then show ?case by (simp add: split_def Let_def)
qed

lemma wallHook_body_skip: "ev src = None \<Longrightarrow> wallHook_body cv op src k = (src, k)"
  by (simp add: wallHook_body_def)

section \<open>The example scene is reachable\<close>

text \<open>
  Initializing the shaders of the light at (50, 50) with radius 200, on a fresh host,
  builds exactly the first cache of the example scene.
\<close>

lemma init_first_light:
  "initializeSourceShadersHook (\<lambda>s. [1]) scene_canvas (light 50 200) host0 =
     ((light 50 200)\<lparr>ev := Some first_cache\<rparr>,
      \<lparr>trace = [New_wallGeometry, New ShadowMesh 0,
                 Set_EVshadows Background True, Set_EVshadows Coloration True,
                 Set_EVshadows Illumination True,
                 RenderTexture_create 1 400 400 1, Render 0 (150, 150) 1,
                 New ShadowVisionMask 2, New ShadowQuadMesh 3,
                 Set_uEVShadowSampler Illumination 1, Set_uEVShadowSampler Coloration 1,
                 Set_uEVShadowSampler Background 1],
        fresh = 4\<rparr>)"
  by (simp add: initializeSourceShadersHook_def light_def host0_def scene_canvas_def empty_ev_def
      init_shadowMesh_def init_shadowRenderer_def init_shadowVisionMask_def init_visionLOS_def
      init_shadowQuadMesh_def new_renderer_def configureTexture_def alloc_def emit_def
      renderShadowMeshToTexture_def topLeft_def width_def height_def resolution_def
      MAX_TEXTURE_SIZE_def first_cache_def first_renderer_def Let_def)

lemma scene_defs:
  "all_sources scene_sources = [(light 50 200)\<lparr>ev := Some first_cache\<rparr>, (light 150 200)\<lparr>ev := Some second_cache\<rparr>]"
  by (simp add: all_sources_def scene_sources_def)

lemma scene_rasterizations:
  "rasterizations scene_canvas (all_sources scene_sources) = [Render 0 (150, 150) 1, Render 4 (50, 150) 5]"
  by (simp add: scene_defs first_cache_def second_cache_def first_renderer_def second_renderer_def
      render_call_def topLeft_def width_def height_def light_def)

lemma ready_light_eq:
  "ready_light = ((light 50 200)\<lparr>ev := Some first_cache\<rparr>,
      \<lparr>trace = [New_wallGeometry, New ShadowMesh 0,
                 Set_EVshadows Background True, Set_EVshadows Coloration True,
                 Set_EVshadows Illumination True,
                 RenderTexture_create 1 400 400 1, Render 0 (150, 150) 1,
                 New ShadowVisionMask 2, New ShadowQuadMesh 3,
                 Set_uEVShadowSampler Illumination 1, Set_uEVShadowSampler Coloration 1,
                 Set_uEVShadowSampler Background 1],
        fresh = 4\<rparr>)"
  unfolding ready_light_def by (rule init_first_light)

section \<open>The size of a render texture\<close>

text \<open>
  The width and height of a \<open>ShadowTextureRenderer\<close> are both twice the radius of its
  source; those of the line-of-sight subclass are the width and height of the canvas, and
  its top left corner is the origin. The constructor and \<open>updateSourceRadius\<close> give the
  render texture that width and height.
\<close>

lemma render_target_size:
  "(rclass r = ShadowTextureRenderer \<longrightarrow>
      width cv src r = 2 * radius src \<and> height cv src r = 2 * radius src)
   \<and> (rclass r = ShadowVisionLOSTextureRenderer \<longrightarrow>
      width cv src r = dimensions_width cv \<and> height cv src r = dimensions_height cv
      \<and> topLeft cv src r = (0, 0))
   \<and> rclass (fst (new_renderer c cv src m h)) = c
   \<and> rt_width (renderTexture (fst (new_renderer c cv src m h)))
        = width cv src (fst (new_renderer c cv src m h))
   \<and> rt_height (renderTexture (fst (new_renderer c cv src m h)))
        = height cv src (fst (new_renderer c cv src m h))
   \<and> rt_width (renderTexture (fst (updateSourceRadius cv src r h))) = width cv src r
   \<and> rt_height (renderTexture (fst (updateSourceRadius cv src r h))) = height cv src r"
  by (simp add: width_def height_def topLeft_def new_renderer_def configureTexture_def
      updateSourceRadius_def alloc_def Let_def split: renderer_class.split)

section \<open>Sources without the module's property, and destroyed caches\<close>

text \<open>
  For a source without the module's property, the configure wrap only forwards to the
  wrapped method: no error, the source unchanged. Each wall hook skips such a source: it
  is returned unchanged in its place, and the other sources and the host end as if the
  source had not been in the collections.
\<close>

lemma missing_cache_is_noop:
  assumes "ev src = None" and "all_sources c = pre @ src # post"
  shows "configureRenderedPointSource cv changes src h = (None, src, emit Wrapped_configure h)
    \<and> createWallHook addWall cv wallD c h =
         (take (length pre) (fst (createWallHook addWall cv wallD (sources_without pre post) h)) @ src
            # drop (length pre) (fst (createWallHook addWall cv wallD (sources_without pre post) h)),
          snd (createWallHook addWall cv wallD (sources_without pre post) h))
    \<and> updateWallHook WC WR updateWall cv wallD keys c h =
         (take (length pre) (fst (updateWallHook WC WR updateWall cv wallD keys (sources_without pre post) h)) @ src
            # drop (length pre) (fst (updateWallHook WC WR updateWall cv wallD keys (sources_without pre post) h)),
          snd (updateWallHook WC WR updateWall cv wallD keys (sources_without pre post) h))
    \<and> deleteWallHook removeWall cv wallD c h =
         (take (length pre) (fst (deleteWallHook removeWall cv wallD (sources_without pre post) h)) @ src
            # drop (length pre) (fst (deleteWallHook removeWall cv wallD (sources_without pre post) h)),
          snd (deleteWallHook removeWall cv wallD (sources_without pre post) h))"
proof -
  have w: "all_sources (sources_without pre post) = pre @ post"
    by (simp add: all_sources_def sources_without_def)
  have s: "\<And>op. for_sources (wallHook_body cv op) (pre @ src # post) h =
           (take (length pre) (fst (for_sources (wallHook_body cv op) (pre @ post) h)) @ src
              # drop (length pre) (fst (for_sources (wallHook_body cv op) (pre @ post) h)),
            snd (for_sources (wallHook_body cv op) (pre @ post) h))"
    by (rule for_sources_skip) (simp add: wallHook_body_skip[OF assms(1)])
  show ?thesis
    using assms s by (simp add: configureRenderedPointSource_def Let_def createWallHook_def
        updateWallHook_def deleteWallHook_def w)
qed

text \<open>A third light without a cache, between the two lights of the example scene.\<close>

lemma missing_cache_is_noop_example:
  "ev (light 250 100) = None
   \<and> configureRenderedPointSource scene_canvas {''x''} (light 250 100) host0
       = (None, light 250 100, emit Wrapped_configure host0)
   \<and> deleteWallHook index_removeWall scene_canvas W1 three_sources host0
       = (fst (deleteWallHook index_removeWall scene_canvas W1 scene_sources host0) ! 0
            # light 250 100
            # [fst (deleteWallHook index_removeWall scene_canvas W1 scene_sources host0) ! 1],
          snd (deleteWallHook index_removeWall scene_canvas W1 scene_sources host0))"
proof -
  have a: "ev (light 250 100) = None" by (simp add: light_def)
  have b: "all_sources three_sources =
      [(light 50 200)\<lparr>ev := Some first_cache\<rparr>] @ light 250 100 # [(light 150 200)\<lparr>ev := Some second_cache\<rparr>]"
    by (simp add: all_sources_def three_sources_def)
  have c: "sources_without [(light 50 200)\<lparr>ev := Some first_cache\<rparr>] [(light 150 200)\<lparr>ev := Some second_cache\<rparr>]
      = scene_sources"
    by (simp add: sources_without_def scene_sources_def)
  have l: "length (fst (deleteWallHook index_removeWall scene_canvas W1 scene_sources host0)) = 2"
    unfolding deleteWallHook_def for_sources_length by (simp add: scene_defs)
  then obtain u v where uv: "fst (deleteWallHook index_removeWall scene_canvas W1 scene_sources host0) = [u, v]"
    by (cases "fst (deleteWallHook index_removeWall scene_canvas W1 scene_sources host0)" rule: list.exhaust;
        simp; metis length_0_conv length_Suc_conv)
  show ?thesis
    using missing_cache_is_noop[OF a b, of scene_canvas "{''x''}" host0 _ W1 _ _ _ _ index_removeWall] a
    unfolding c by (simp add: uv)
qed

text \<open>
  Destroying a cache empties it and leaves the module's property on the source. The
  guard of the configure wrap then lets a notification through; one that changes
  position or radius reaches the vision mask, which is unset, and throws. The wall hooks
  find nothing to do for such a source.
\<close>

lemma emptied_cache:
  assumes "\<forall>a. get_asset a e = None"
  shows "shadowQuadMesh e = None" "shadowRenderer e = None" "shadowVisionMask e = None"
    "shadowVisionLOSRenderer e = None" "wallGeometry e = None"
  using assms[rule_format, of ShadowQuadMesh] assms[rule_format, of ShadowRenderer]
    assms[rule_format, of ShadowVisionMask] assms[rule_format, of ShadowVisionLOSRenderer]
    assms[rule_format, of WallGeometry]
  by simp_all

lemma destroyed_source_throws:
  assumes "ev this = Some e"
    and "destroyRenderedPointSource cv this h = (err, this1, h1)"
    and "ev s = ev this1"
    and "''x'' \<in> changes \<or> ''y'' \<in> changes \<or> ''radius'' \<in> changes"
  shows "ev this1 \<noteq> None \<and> fst (configureRenderedPointSource cv changes s k) = Some TypeError"
proof -
  obtain e1 pre k1 where a: "destroyRenderedPointSource cv this h = (None, this\<lparr>ev := Some e1\<rparr>, k1)"
      "\<forall>a. get_asset a e1 = None"
    using destroy_once[OF assms(1)] by blast
  have ev1: "ev this1 = Some e1" using a(1) assms(2) by auto
  then have evs: "ev s = Some e1" using assms(3) by simp
  let ?k0 = "emit Wrapped_configure k"
  obtain e2 k2 where rf: "refreshSource s e1 ?k0 = (e2, k2)" by (cases "refreshSource s e1 ?k0")
  have e2: "shadowQuadMesh e2 = None" "shadowRenderer e2 = None" "shadowVisionMask e2 = None"
    using ev_refreshSource(6,1,5)[of s e1 ?k0] rf emptied_cache(1,2,3)[OF a(2)] by simp_all
  have p: "fst (changedPositionBranch cv s e2 k2) = Some TypeError"
    using e2 by (simp add: changedPositionBranch_def updateQuadMesh_def Let_def)
  have r: "fst (changedRadiusBranch cv s e2 k2) = Some TypeError"
    using e2 by (simp add: changedRadiusBranch_def updateQuadMesh_def Let_def)
  have "fst (configureRenderedPointSource cv changes s k) = Some TypeError"
    using assms(4) evs rf p r by (auto simp: configureRenderedPointSource_def Let_def)
  then show ?thesis using ev1 by simp
qed

lemma destroyed_source_harmless_paths:
  assumes "ev this = Some e"
    and "destroyRenderedPointSource cv this h = (err, this1, h1)"
    and "ev s = ev this1"
  shows "wallHook_body cv op s k = (s, k)"
proof -
  obtain e1 pre k1 where a: "destroyRenderedPointSource cv this h = (None, this\<lparr>ev := Some e1\<rparr>, k1)"
      "\<forall>a. get_asset a e1 = None"
    using destroy_once[OF assms(1)] by blast
  have evs: "ev s = Some e1" using a(1) assms(2,3) by auto
  have "s\<lparr>ev := Some e1\<rparr> = s" using evs by simp
  then show ?thesis
    using evs emptied_cache(2,5)[OF a(2)] by (simp add: wallHook_body_def Let_def)
qed

lemma destroyed_light_eq:
  "destroyed_light = (None, (light 50 200)\<lparr>ev := Some empty_ev\<rparr>,
      \<lparr>trace = trace (snd ready_light) @
                [Destroy ShadowQuadMesh, RenderTexture_destroy 1, Destroy ShadowMesh,
                 Destroy WallGeometry, Destroy ShadowVisionMask, Wrapped_destroy],
        fresh = 4\<rparr>)"
  unfolding destroyed_light_def ready_light_eq
  by (simp add: destroyRenderedPointSource_def assets_def first_cache_def first_renderer_def
      empty_ev_def scene_canvas_def light_def destroy_def emit_def)

text \<open>On positive sides the resolution is the budget, capped by the longer side, over the
  longer side.\<close>

lemma resolution_eq:
  assumes "0 < width cv src r" and "0 < height cv src r"
  shows "resolution cv src r =
           min MAX_TEXTURE_SIZE (max (width cv src r) (height cv src r))
             / max (width cv src r) (height cv src r)"
  using assms by (simp add: resolution_def Let_def max_def)

section \<open>The claims\<close>

text \<open>
  Claim C1, as amended. For a \<open>ShadowTextureRenderer\<close> of a source with radius above 0,
  and for the line-of-sight subclass on a canvas of positive width and height, the
  resolution is the largest value not above 1 for which the longer side times the
  resolution stays within \<open>MAX_TEXTURE_SIZE\<close> (4096): the product is within the budget,
  the resolution is at most 1, and every value at most 1 that keeps the product within the
  budget is at most the resolution. One resolution scales both sides, so the aspect is kept.
\<close>

theorem resolution_largest_up_to_one:
  assumes "rclass r = ShadowTextureRenderer \<longrightarrow> 0 < radius src"
    and "rclass r = ShadowVisionLOSTextureRenderer \<longrightarrow>
           0 < dimensions_width cv \<and> 0 < dimensions_height cv"
  shows "resolution cv src r * max (width cv src r) (height cv src r) \<le> MAX_TEXTURE_SIZE
       \<and> resolution cv src r \<le> 1
       \<and> (\<forall>\<rho>. \<rho> \<le> 1 \<and> \<rho> * max (width cv src r) (height cv src r) \<le> MAX_TEXTURE_SIZE
              \<longrightarrow> \<rho> \<le> resolution cv src r)"
proof -
  let ?m = "max (width cv src r) (height cv src r)"
  have wh: "0 < width cv src r" "0 < height cv src r"
    using assms by (cases "rclass r"; simp add: width_def height_def)+
  then have pos: "0 < ?m" by simp
  have res: "resolution cv src r = min MAX_TEXTURE_SIZE ?m / ?m"
    using resolution_eq[OF wh] .
  have a: "resolution cv src r * ?m \<le> MAX_TEXTURE_SIZE"
    using pos res by simp
  have b: "resolution cv src r \<le> 1"
    using pos res by (simp add: min_def)
  have c: "\<rho> \<le> resolution cv src r" if "\<rho> \<le> 1" "\<rho> * ?m \<le> MAX_TEXTURE_SIZE" for \<rho>
  proof (cases "MAX_TEXTURE_SIZE \<le> ?m")
    case True
    then have "resolution cv src r = MAX_TEXTURE_SIZE / ?m" using res by (simp add: min_def)
    moreover have "\<rho> \<le> MAX_TEXTURE_SIZE / ?m" using that(2) pos by (simp add: pos_le_divide_eq)
    ultimately show ?thesis by simp
  next
    case False
    then have "resolution cv src r = 1" using res pos by (simp add: min_def)
    then show ?thesis using that(1) by simp
  qed
  show ?thesis using a b c by blast
qed

text \<open>
  At radius 3000 the sides are 6000: the bound holds and one half is below the resolution.
  On a canvas of 8192 by 4096 the statement leaves the line-of-sight renderer the
  resolution one half only, and on a canvas of 3000 by 6000 the resolution 4096 / 6000.
\<close>

theorem resolution_largest_up_to_one_witness:
  "0 < radius (light 50 3000)
   \<and> resolution scene_canvas (light 50 3000) first_renderer
       * max (width scene_canvas (light 50 3000) first_renderer)
             (height scene_canvas (light 50 3000) first_renderer) \<le> MAX_TEXTURE_SIZE
   \<and> resolution scene_canvas (light 50 3000) first_renderer \<le> 1
   \<and> 1 / 2 \<le> resolution scene_canvas (light 50 3000) first_renderer
   \<and> 0 < dimensions_width wide_canvas \<and> 0 < dimensions_height wide_canvas
   \<and> resolution wide_canvas (light 50 200) los_renderer = 1 / 2
   \<and> 0 < dimensions_width tall_canvas \<and> 0 < dimensions_height tall_canvas
   \<and> resolution tall_canvas (light 50 200) los_renderer = 4096 / 6000"
proof -
  have c1: "rclass first_renderer = ShadowTextureRenderer" "0 < radius (light 50 3000)"
      "max (width scene_canvas (light 50 3000) first_renderer)
           (height scene_canvas (light 50 3000) first_renderer) = 6000"
    by (simp_all add: first_renderer_def light_def width_def height_def)
  have c2: "rclass los_renderer = ShadowVisionLOSTextureRenderer"
      "0 < dimensions_width wide_canvas \<and> 0 < dimensions_height wide_canvas"
      "max (width wide_canvas (light 50 200) los_renderer)
           (height wide_canvas (light 50 200) los_renderer) = 8192"
    by (simp_all add: los_renderer_def wide_canvas_def width_def height_def)
  have c3: "0 < dimensions_width tall_canvas \<and> 0 < dimensions_height tall_canvas"
      "max (width tall_canvas (light 50 200) los_renderer)
           (height tall_canvas (light 50 200) los_renderer) = 6000"
    by (simp_all add: los_renderer_def tall_canvas_def width_def height_def)
  have m: "MAX_TEXTURE_SIZE = 4096" by (simp add: MAX_TEXTURE_SIZE_def)
  have p1: "rclass first_renderer = ShadowTextureRenderer \<longrightarrow> 0 < radius (light 50 3000)"
      "rclass first_renderer = ShadowVisionLOSTextureRenderer \<longrightarrow>
         0 < dimensions_width scene_canvas \<and> 0 < dimensions_height scene_canvas"
    using c1(1,2) by simp_all
  have p2: "rclass los_renderer = ShadowTextureRenderer \<longrightarrow> 0 < radius (light 50 200)"
      "rclass los_renderer = ShadowVisionLOSTextureRenderer \<longrightarrow>
         0 < dimensions_width wide_canvas \<and> 0 < dimensions_height wide_canvas"
    using c2(1,2) by simp_all
  have p3: "rclass los_renderer = ShadowVisionLOSTextureRenderer \<longrightarrow>
         0 < dimensions_width tall_canvas \<and> 0 < dimensions_height tall_canvas"
    using c3(1) by simp
  note t1 = resolution_largest_up_to_one[OF p1, unfolded c1(3) m]
  note t2 = resolution_largest_up_to_one[OF p2, unfolded c2(3) m]
  note t3 = resolution_largest_up_to_one[OF p2(1) p3, unfolded c3(2) m]
  have w1: "resolution scene_canvas (light 50 3000) first_renderer * 6000 \<le> 4096
      \<and> resolution scene_canvas (light 50 3000) first_renderer \<le> 1
      \<and> 1 / 2 \<le> resolution scene_canvas (light 50 3000) first_renderer"
    using t1 t1[THEN conjunct2, THEN conjunct2, rule_format, of "1 / 2"] by simp
  have w2: "resolution wide_canvas (light 50 200) los_renderer = 1 / 2"
    using t2[THEN conjunct1] t2[THEN conjunct2, THEN conjunct2, rule_format, of "1 / 2"] by simp
  have w3: "resolution tall_canvas (light 50 200) los_renderer = 4096 / 6000"
    using t3[THEN conjunct1] t3[THEN conjunct2, THEN conjunct2, rule_format, of "4096 / 6000"] by simp
  show ?thesis using w1 w2 w3 c1 c2 c3 by (simp add: m)
qed

text \<open>
  Claim C1 as first stated fails: at radius 100 the resolution is 1, although the value 2
  also keeps 200 times the resolution within 4096. The getter starts from a resolution
  of 1 and only ever scales down.
\<close>

theorem resolution_not_largest_counterexample:
  "resolution scene_canvas (light 50 100) first_renderer = 1
   \<and> 2 * max (width scene_canvas (light 50 100) first_renderer)
             (height scene_canvas (light 50 100) first_renderer) \<le> MAX_TEXTURE_SIZE
   \<and> resolution scene_canvas (light 50 100) first_renderer < 2"
  by (simp add: resolution_def width_def height_def first_renderer_def light_def MAX_TEXTURE_SIZE_def)

text \<open>
  Claim C2, as amended. A created or deleted wall, and an updated wall whose changed keys
  include a coordinate or a restriction key, is routed to every source that has a cache:
  the operation is applied to the wall geometry of each cache, and each cache that has a
  shadow renderer rasterizes once, in the order of the sources, whatever the operation did
  to its wall index. A wall update with no such key returns before the loop and leaves
  every source and the host as they were.
\<close>

theorem wall_hooks_rasterize_every_cache:
  "createWallHook addWall cv wallD c h
     = (map (apply_to_index (addWall (wd_object wallD))) (all_sources c),
        h\<lparr>trace := trace h @ rasterizations cv (all_sources c)\<rparr>)
   \<and> deleteWallHook removeWall cv wallD c h
     = (map (apply_to_index (removeWall (wd_id wallD))) (all_sources c),
        h\<lparr>trace := trace h @ rasterizations cv (all_sources c)\<rparr>)
   \<and> (list_ex (\<lambda>f. f \<in> changes) WALL_COORDINATES \<or> list_ex (\<lambda>f. f \<in> changes) WALL_RESTRICTED
        \<longrightarrow> updateWallHook WALL_COORDINATES WALL_RESTRICTED updateWall cv wallD changes c h
              = (map (apply_to_index (updateWall (wd_object wallD) changes)) (all_sources c),
                 h\<lparr>trace := trace h @ rasterizations cv (all_sources c)\<rparr>))
   \<and> (\<not> (list_ex (\<lambda>f. f \<in> changes) WALL_COORDINATES \<or> list_ex (\<lambda>f. f \<in> changes) WALL_RESTRICTED)
        \<longrightarrow> updateWallHook WALL_COORDINATES WALL_RESTRICTED updateWall cv wallD changes c h
              = (all_sources c, h))"
  by (simp add: createWallHook_def deleteWallHook_def updateWallHook_def for_sources_wallHook)

text \<open>In the example scene each hook rasterizes both caches; an update of the key
  \<open>door\<close> alone does nothing.\<close>

theorem wall_hooks_rasterize_every_cache_witness:
  "new_events host0 (snd (createWallHook (\<lambda>w g. g) scene_canvas W1 scene_sources host0))
     = [Render 0 (150, 150) 1, Render 4 (50, 150) 5]
   \<and> new_events host0 (snd (deleteWallHook index_removeWall scene_canvas W1 scene_sources host0))
     = [Render 0 (150, 150) 1, Render 4 (50, 150) 5]
   \<and> new_events host0 (snd (updateWallHook [''c''] [''light''] (\<lambda>w k g. g) scene_canvas W1
        {''c''} scene_sources host0))
     = [Render 0 (150, 150) 1, Render 4 (50, 150) 5]
   \<and> updateWallHook [''c''] [''light''] (\<lambda>w k g. g) scene_canvas W1 {''door''} scene_sources host0
     = (all_sources scene_sources, host0)"
proof -
  have a: "list_ex (\<lambda>f. f \<in> {''c''}) [''c''] \<or> list_ex (\<lambda>f. f \<in> {''c''}) [''light'']" by simp
  have b: "\<not> (list_ex (\<lambda>f. f \<in> {''door''}) [''c''] \<or> list_ex (\<lambda>f. f \<in> {''door''}) [''light''])" by simp
  have n: "new_events host0 (host0\<lparr>trace := trace host0 @ xs\<rparr>) = xs" for xs
    by (simp add: new_events_def)
  show ?thesis
    using wall_hooks_rasterize_every_cache[of "\<lambda>w g. g" scene_canvas W1 scene_sources host0
        index_removeWall "{''c''}" "[''c'']" "[''light'']" "\<lambda>w k g. g"]
      wall_hooks_rasterize_every_cache[of "\<lambda>w g. g" scene_canvas W1 scene_sources host0
        index_removeWall "{''door''}" "[''c'']" "[''light'']" "\<lambda>w k g. g"] a b
    unfolding scene_rasterizations by (simp add: n)
qed

text \<open>
  Claim C2 as first stated fails: deleting wall 1 from the example scene leaves the wall
  index of the second cache as it was (empty), and still its render texture 5 is
  rasterized again.
\<close>

theorem unaffected_cache_rasterized_counterexample:
  "map (map_option wallGeometry \<circ> ev) (all_sources scene_sources) = [Some (Some [1]), Some (Some [])]
   \<and> map (map_option wallGeometry \<circ> ev)
        (fst (deleteWallHook index_removeWall scene_canvas W1 scene_sources host0))
      = [Some (Some []), Some (Some [])]
   \<and> new_events host0 (snd (deleteWallHook index_removeWall scene_canvas W1 scene_sources host0))
      = [Render 0 (150, 150) 1, Render 4 (50, 150) 5]"
  by (simp add: deleteWallHook_def scene_defs wallHook_body_def Let_def new_events_def
      update_def renderShadowMeshToTexture_def emit_def host0_def
      first_cache_def second_cache_def first_renderer_def second_renderer_def
      topLeft_def width_def height_def light_def index_removeWall_def W1_def)

text \<open>
  Claim C3. When the changed keys are exactly \<open>radius\<close> and the source has a cache with a
  shadow renderer, the handler sets the resolution of the render texture to the
  recomputed one, resizes it to the recomputed width and height, and rasterizes exactly
  once; nothing is created, and the shadow mesh of the cache is the one it was.
\<close>

theorem radius_change_resizes_and_rasterizes_once:
  assumes "changes = {''radius''}" and "ev this = Some e" and "shadowRenderer e = Some r"
    and "configureRenderedPointSource cv changes this h = (err, this', h')"
  shows "map_option shadowRenderer (ev this') =
           Some (Some (r\<lparr>renderTexture := (renderTexture r)\<lparr>rt_width := width cv this r,
              rt_height := height cv this r, rt_resolution := resolution cv this r\<rparr>\<rparr>))
       \<and> filter is_resize (new_events h h') =
           [SetResolution (rt_id (renderTexture r)) (resolution cv this r),
            Resize (rt_id (renderTexture r)) (width cv this r) (height cv this r)]
       \<and> filter is_Render (new_events h h') = [render_call cv this r]
       \<and> filter is_New (new_events h h') = []
       \<and> map_option shadowMesh (ev this') = Some (shadowMesh e)"
proof -
  let ?h0 = "emit Wrapped_configure h"
  obtain e1 h1 where rf: "refreshSource this e ?h0 = (e1, h1)" by (cases "refreshSource this e ?h0")
  have c: "changedRadiusBranch cv this e1 h1 = (err, this', h')"
    using assms(1,2,4) rf by (simp add: configureRenderedPointSource_def Let_def)
  have e1: "shadowRenderer e1 = Some r" "shadowMesh e1 = shadowMesh e"
    using ev_refreshSource(1,3)[of this e ?h0] rf assms(3) by simp_all
  obtain xs where xs: "trace h1 = trace ?h0 @ xs" "quiet xs"
    using trace_refreshSource[of this e ?h0] rf by (auto simp: quiet_def)
  obtain ys where ys: "trace h' = trace h1 @ [SetResolution (rt_id (renderTexture r)) (resolution cv this r),
                Resize (rt_id (renderTexture r)) (width cv this r) (height cv this r),
                render_call cv this r] @ ys" "quiet ys"
    using changedRadiusBranch_effect(1)[OF e1(1) c] by blast
  have n: "new_events h h' = Wrapped_configure # xs @ [SetResolution (rt_id (renderTexture r)) (resolution cv this r),
                Resize (rt_id (renderTexture r)) (width cv this r) (height cv this r),
                render_call cv this r] @ ys"
    using xs(1) ys(1) by (simp add: new_events_def trace_emit)
  show ?thesis
    using n filter_quiet[OF xs(2)] filter_quiet[OF ys(2)]
      changedRadiusBranch_effect(2,3)[OF e1(1) c] e1(2)
    by (simp add: fst_updateSourceRadius)
qed

text \<open>The first light of the example scene, its radius changed from 200 to 50.\<close>

theorem radius_change_resizes_and_rasterizes_once_witness:
  "filter is_resize (new_events host0 (snd (snd (configureRenderedPointSource scene_canvas
        {''radius''} ((light 50 50)\<lparr>ev := Some first_cache\<rparr>) host0))))
     = [SetResolution 1 1, Resize 1 100 100]
   \<and> filter is_Render (new_events host0 (snd (snd (configureRenderedPointSource scene_canvas
        {''radius''} ((light 50 50)\<lparr>ev := Some first_cache\<rparr>) host0))))
     = [Render 0 (0, 0) 1]
   \<and> filter is_New (new_events host0 (snd (snd (configureRenderedPointSource scene_canvas
        {''radius''} ((light 50 50)\<lparr>ev := Some first_cache\<rparr>) host0)))) = []
   \<and> map_option shadowMesh (ev (fst (snd (configureRenderedPointSource scene_canvas
        {''radius''} ((light 50 50)\<lparr>ev := Some first_cache\<rparr>) host0)))) = Some (Some 0)
   \<and> map_option shadowRenderer (ev (fst (snd (configureRenderedPointSource scene_canvas
        {''radius''} ((light 50 50)\<lparr>ev := Some first_cache\<rparr>) host0))))
     = Some (Some (first_renderer\<lparr>renderTexture :=
         \<lparr>rt_id = 1, rt_width = 100, rt_height = 100, rt_resolution = 1\<rparr>\<rparr>))"
proof -
  let ?s = "(light 50 50)\<lparr>ev := Some first_cache\<rparr>"
  let ?res = "configureRenderedPointSource scene_canvas {''radius''} ?s host0"
  have a: "ev ?s = Some first_cache" by simp
  have b: "shadowRenderer first_cache = Some first_renderer" by (simp add: first_cache_def)
  have c: "?res = (fst ?res, fst (snd ?res), snd (snd ?res))" by simp
  have g: "width scene_canvas ?s first_renderer = 100" "height scene_canvas ?s first_renderer = 100"
     "resolution scene_canvas ?s first_renderer = 1"
     "render_call scene_canvas ?s first_renderer = Render 0 (0, 0) 1"
     "rt_id (renderTexture first_renderer) = 1"
     "shadowMesh first_cache = Some 0"
     "renderTexture first_renderer\<lparr>rt_width := 100, rt_height := 100, rt_resolution := 1\<rparr>
        = \<lparr>rt_id = 1, rt_width = 100, rt_height = 100, rt_resolution = 1\<rparr>"
    by (simp_all add: width_def height_def resolution_def render_call_def topLeft_def
        first_renderer_def first_cache_def light_def MAX_TEXTURE_SIZE_def)
  show ?thesis
    using radius_change_resizes_and_rasterizes_once[OF refl a b c]
    unfolding g by simp
qed

text \<open>
  Claim C4, as amended. Destroying the cache of a source twice, whatever assets the cache
  has, throws neither time; together the two calls release each asset that was set
  exactly once (the second call only forwards to the wrapped method) and every asset is
  unset afterwards. The guard is in \<open>destroyRenderedPointSource\<close>, which skips unset assets
  and unsets each asset it destroys.
\<close>

theorem destroy_cache_twice_releases_once:
  assumes "destroyRenderedPointSource cv this h = (err1, this1, h1)"
      and "destroyRenderedPointSource cv this1 h1 = (err2, this2, h2)"
  shows "err1 = None \<and> err2 = None \<and> this2 = this1
       \<and> new_events h1 h2 = [Wrapped_destroy]
       \<and> filter is_release (new_events h h2)
           = (case ev this of None \<Rightarrow> [] | Some e \<Rightarrow> releases assets e)
       \<and> (\<forall>e1 a. ev this1 = Some e1 \<longrightarrow> get_asset a e1 = None)"
proof (cases "ev this")
  case None
  then have 1: "err1 = None" "this1 = this" "h1 = emit Wrapped_destroy h"
    using assms(1) by (simp_all add: destroyRenderedPointSource_def)
  then have 2: "err2 = None" "this2 = this" "h2 = emit Wrapped_destroy h1"
    using assms(2) None by (simp_all add: destroyRenderedPointSource_def)
  show ?thesis using 1 2 None by (simp add: new_events_def trace_emit)
next
  case (Some e)
  obtain e1 pre k1 where a: "destroyRenderedPointSource cv this h = (None, this\<lparr>ev := Some e1\<rparr>, k1)"
      "\<forall>a. get_asset a e1 = None"
      "trace k1 = trace h @ pre @ releases assets e @ [Wrapped_destroy]"
      "filter is_release pre = []"
    using destroy_once[OF Some] by blast
  have 1: "err1 = None" "this1 = this\<lparr>ev := Some e1\<rparr>" "h1 = k1"
    using a(1) assms(1) by simp_all
  have ev1: "ev this1 = Some e1" using 1(2) by simp
  obtain e2 pre2 k2 where b: "destroyRenderedPointSource cv this1 h1 = (None, this1\<lparr>ev := Some e2\<rparr>, k2)"
      "trace k2 = trace h1 @ pre2 @ releases assets e1 @ [Wrapped_destroy]"
    using destroy_once[OF ev1] by blast
  have q: "shadowQuadMesh e1 = None" using a(2)[rule_format, of ShadowQuadMesh] by simp
  have d2: "destroyRenderedPointSource cv this1 h1 = (None, this1, emit Wrapped_destroy h1)"
    using ev1 q destroy_assets_nothing[of assets e1 h1] a(2)
    by (simp add: destroyRenderedPointSource_def 1(2))
  have 2: "err2 = None" "this2 = this1" "h2 = emit Wrapped_destroy h1"
    using d2 assms(2) by simp_all
  have n: "new_events h h2 = pre @ releases assets e @ [Wrapped_destroy, Wrapped_destroy]"
    using 2(3) 1(3) a(3) by (simp add: new_events_def trace_emit)
  show ?thesis
    using 1 2 n a(2,4) Some ev1 by (simp add: new_events_def trace_emit releases_are_releases)
qed

text \<open>A cache that only has its renderer, mesh and wall geometry, destroyed twice.\<close>

theorem destroy_cache_twice_releases_once_witness:
  "fst (destroyRenderedPointSource scene_canvas ((light 50 200)\<lparr>ev := Some partial_cache\<rparr>) host0) = None
   \<and> fst (destroyRenderedPointSource scene_canvas
        (fst (snd (destroyRenderedPointSource scene_canvas ((light 50 200)\<lparr>ev := Some partial_cache\<rparr>) host0)))
        (snd (snd (destroyRenderedPointSource scene_canvas ((light 50 200)\<lparr>ev := Some partial_cache\<rparr>) host0)))) = None
   \<and> filter is_release (new_events host0 (snd (snd (destroyRenderedPointSource scene_canvas
        (fst (snd (destroyRenderedPointSource scene_canvas ((light 50 200)\<lparr>ev := Some partial_cache\<rparr>) host0)))
        (snd (snd (destroyRenderedPointSource scene_canvas ((light 50 200)\<lparr>ev := Some partial_cache\<rparr>) host0)))))))
       = [RenderTexture_destroy 1, Destroy ShadowMesh, Destroy WallGeometry]
   \<and> map_option (get_asset ShadowRenderer)
        (ev (fst (snd (destroyRenderedPointSource scene_canvas ((light 50 200)\<lparr>ev := Some partial_cache\<rparr>) host0))))
       = Some None"
proof -
  let ?s = "(light 50 200)\<lparr>ev := Some partial_cache\<rparr>"
  let ?d1 = "destroyRenderedPointSource scene_canvas ?s host0"
  let ?d2 = "destroyRenderedPointSource scene_canvas (fst (snd ?d1)) (snd (snd ?d1))"
  have c1: "?d1 = (fst ?d1, fst (snd ?d1), snd (snd ?d1))" by simp
  have c2: "?d2 = (fst ?d2, fst (snd ?d2), snd (snd ?d2))" by simp
  have r: "releases assets partial_cache = [RenderTexture_destroy 1, Destroy ShadowMesh, Destroy WallGeometry]"
    by (simp add: assets_def partial_cache_def first_renderer_def)
  have e: "ev ?s = Some partial_cache" by simp
  obtain e1 where e1: "ev (fst (snd ?d1)) = Some e1"
    by (cases "ev (fst (snd ?d1))") (simp_all add: destroyRenderedPointSource_def split: prod.splits option.splits)
  show ?thesis
    using destroy_cache_twice_releases_once[OF c1 c2] e1 unfolding e by (simp add: r)
qed

text \<open>
  Claim C4 as first stated fails in its last part: \<open>ShadowTextureRenderer.destroy\<close> has no
  guard of its own, and a second call on the same renderer destroys the render texture
  a second time.
\<close>

theorem renderer_destroy_twice_counterexample:
  "new_events host0 (destroy first_renderer (destroy first_renderer host0))
     = [RenderTexture_destroy 1, RenderTexture_destroy 1]"
  by (simp add: destroy_def emit_def new_events_def host0_def first_renderer_def)

text \<open>
  Claim C5. The width and height of the render target of a source are both twice the
  radius of the source (for the line-of-sight variant, the width and height of the canvas,
  anchored at the origin). The handler of source changes breaks this when position and
  radius change in one notification: the light of the example scene is built at radius
  200 with a render texture of 400 by 400, which is twice its radius; moved to x = 60 and
  set to radius 50 in one notification, it keeps the texture of 400 by 400 and the
  resolution 1, without an error, while twice its radius is now 100. The same change of
  radius alone resizes the texture to 100 by 100.
\<close>

theorem render_target_stale_after_position_and_radius:
  "map_option (map_option renderTexture \<circ> shadowRenderer) (ev (fst ready_light))
     = Some (Some \<lparr>rt_id = 1, rt_width = 400, rt_height = 400, rt_resolution = 1\<rparr>)
   \<and> 2 * radius (fst ready_light) = 400
   \<and> fst (configureRenderedPointSource scene_canvas {''x'', ''radius''}
            ((fst ready_light)\<lparr>src_x := 60, radius := 50\<rparr>) (snd ready_light)) = None
   \<and> map_option (map_option renderTexture \<circ> shadowRenderer)
        (ev (fst (snd (configureRenderedPointSource scene_canvas {''x'', ''radius''}
            ((fst ready_light)\<lparr>src_x := 60, radius := 50\<rparr>) (snd ready_light)))))
     = Some (Some \<lparr>rt_id = 1, rt_width = 400, rt_height = 400, rt_resolution = 1\<rparr>)
   \<and> 2 * radius (fst (snd (configureRenderedPointSource scene_canvas {''x'', ''radius''}
            ((fst ready_light)\<lparr>src_x := 60, radius := 50\<rparr>) (snd ready_light)))) = 100
   \<and> map_option (map_option renderTexture \<circ> shadowRenderer)
        (ev (fst (snd (configureRenderedPointSource scene_canvas {''radius''}
            ((fst ready_light)\<lparr>radius := 50\<rparr>) (snd ready_light)))))
     = Some (Some \<lparr>rt_id = 1, rt_width = 100, rt_height = 100, rt_resolution = 1\<rparr>)"
  unfolding ready_light_eq
  by (simp add: configureRenderedPointSource_def refreshSource_def changedPositionBranch_def
      changedRadiusBranch_def updateSourceRadius_def updateQuadMesh_def update_def
      renderShadowMeshToTexture_def emit_def topLeft_def width_def height_def resolution_def
      MAX_TEXTURE_SIZE_def first_cache_def first_renderer_def light_def Let_def)

text \<open>
  Claim C6. For a \<open>GlobalLightSource\<close> the shader initialization hook returns at once:
  the source, with its module property, and the host, with its trace and its objects, are
  unchanged.
\<close>

theorem global_light_not_cached:
  assumes "src_class source = GlobalLightSource"
  shows "initializeSourceShadersHook newGeometry cv source h = (source, h)"
  using assms by (simp add: initializeSourceShadersHook_def)

text \<open>A global light without a cache still has none after the hook.\<close>

theorem global_light_not_cached_witness:
  "src_class global_light = GlobalLightSource
   \<and> initializeSourceShadersHook (\<lambda>s. [1]) scene_canvas global_light host0 = (global_light, host0)"
proof -
  have a: "src_class global_light = GlobalLightSource" by (simp add: global_light_def)
  show ?thesis using global_light_not_cached[OF a] a by simp
qed

text \<open>
  Claim C7. A notification of a source change or a wall change for a source that has no
  cache is a no-op for that source: no state changed, no error. The code breaks this for
  a source whose cache was destroyed: destroying the cache of the light of the example
  scene succeeds and leaves it an emptied cache, and a notification that its position,
  or its radius, changed then throws a TypeError. A change of elevation alone only
  forwards to the wrapped method, and the hook of a deleted wall leaves the source and
  the host as they are.
\<close>

theorem destroyed_source_notification_throws:
  "fst destroyed_light = None
   \<and> ev (fst (snd destroyed_light)) = Some empty_ev
   \<and> fst (configureRenderedPointSource scene_canvas {''x''}
            ((fst (snd destroyed_light))\<lparr>src_x := 60\<rparr>) (snd (snd destroyed_light)))
       = Some TypeError
   \<and> fst (configureRenderedPointSource scene_canvas {''radius''}
            ((fst (snd destroyed_light))\<lparr>radius := 50\<rparr>) (snd (snd destroyed_light)))
       = Some TypeError
   \<and> configureRenderedPointSource scene_canvas {''elevation''}
        (fst (snd destroyed_light)) (snd (snd destroyed_light))
       = (None, fst (snd destroyed_light), emit Wrapped_configure (snd (snd destroyed_light)))
   \<and> deleteWallHook index_removeWall scene_canvas W1
        \<lparr>lightSources = [fst (snd destroyed_light)], visionSources = [], soundSources = []\<rparr>
        (snd (snd destroyed_light))
       = ([fst (snd destroyed_light)], snd (snd destroyed_light))"
  unfolding destroyed_light_eq
  by (simp add: configureRenderedPointSource_def refreshSource_def changedPositionBranch_def
      changedRadiusBranch_def changedElevationBranch_def updateQuadMesh_def
      deleteWallHook_def all_sources_def wallHook_body_def
      empty_ev_def light_def emit_def Let_def)

text \<open>
  Claim C8. \<open>Segment.isEndpoint\<close> answers false for every point that the comparison puts
  at endpoint B but not at endpoint A: both of its disjuncts compare with A.
\<close>

theorem isEndpoint_misses_B:
  assumes "almostEq (pt_x p) (pt_x (seg_B s)) eps \<and> almostEq (pt_y p) (pt_y (seg_B s)) eps"
    and "\<not> (almostEq (pt_x p) (pt_x (seg_A s)) eps \<and> almostEq (pt_y p) (pt_y (seg_A s)) eps)"
  shows "isEndpoint almostEq s p eps = False"
  using assms(2) by (simp add: isEndpoint_def)

text \<open>Endpoint B of the segment from (0, 0) to (10, 0) is not recognised as an endpoint.\<close>

theorem isEndpoint_misses_B_witness:
  "almostEqual (pt_x (seg_B segment0)) (pt_x (seg_B segment0)) EPSILON_default
   \<and> almostEqual (pt_y (seg_B segment0)) (pt_y (seg_B segment0)) EPSILON_default
   \<and> \<not> almostEqual (pt_x (seg_B segment0)) (pt_x (seg_A segment0)) EPSILON_default
   \<and> isEndpoint almostEqual segment0 (seg_B segment0) EPSILON_default = False"
proof -
  have a: "almostEqual (pt_x (seg_B segment0)) (pt_x (seg_B segment0)) EPSILON_default
      \<and> almostEqual (pt_y (seg_B segment0)) (pt_y (seg_B segment0)) EPSILON_default"
    by (simp add: almostEqual_def EPSILON_default_def)
  have b: "\<not> almostEqual (pt_x (seg_B segment0)) (pt_x (seg_A segment0)) EPSILON_default"
    by (simp add: almostEqual_def EPSILON_default_def segment0_def)
  have c: "\<not> (almostEqual (pt_x (seg_B segment0)) (pt_x (seg_A segment0)) EPSILON_default
      \<and> almostEqual (pt_y (seg_B segment0)) (pt_y (seg_A segment0)) EPSILON_default)"
    using b by simp
  show ?thesis
    using isEndpoint_misses_B[of almostEqual "seg_B segment0" segment0 EPSILON_default] a b c
    by simp
qed

text \<open>
  Claim C9. When the changed keys include \<open>x\<close> or \<open>y\<close>, whatever else changed, the
  handler neither sets a resolution nor resizes: both renderers of the cache, with their
  render textures, are as before, and so is the scale of the vision mask, which only the
  radius branch sets.
\<close>

theorem position_change_never_resizes:
  assumes "''x'' \<in> changes \<or> ''y'' \<in> changes"
    and "configureRenderedPointSource cv changes this h = (err, this', h')"
  shows "filter is_resize (new_events h h') = []
       \<and> map_option shadowRenderer (ev this') = map_option shadowRenderer (ev this)
       \<and> map_option shadowVisionLOSRenderer (ev this') = map_option shadowVisionLOSRenderer (ev this)
       \<and> map_option (map_option vm_scale \<circ> shadowVisionMask) (ev this')
           = map_option (map_option vm_scale \<circ> shadowVisionMask) (ev this)"
proof (cases "ev this")
  case None
  then have "this' = this" "h' = emit Wrapped_configure h"
    using assms(2) by (simp_all add: configureRenderedPointSource_def Let_def)
  then show ?thesis by (simp add: new_events_def trace_emit)
next
  case (Some e)
  let ?h0 = "emit Wrapped_configure h"
  obtain e1 h1 where rf: "refreshSource this e ?h0 = (e1, h1)" by (cases "refreshSource this e ?h0")
  have c: "changedPositionBranch cv this e1 h1 = (err, this', h')"
    using assms Some rf by (simp add: configureRenderedPointSource_def Let_def)
  obtain xs where xs: "trace h1 = trace ?h0 @ xs" "quiet xs"
    using trace_refreshSource[of this e ?h0] rf by (auto simp: quiet_def)
  obtain ys where ys: "trace h' = trace h1 @ ys" "filter is_resize ys = []"
    using changedPositionBranch_effect(1)[OF c] by blast
  have n: "new_events h h' = Wrapped_configure # xs @ ys"
    using xs(1) ys(1) by (simp add: new_events_def trace_emit)
  have e1: "shadowRenderer e1 = shadowRenderer e" "shadowVisionLOSRenderer e1 = shadowVisionLOSRenderer e"
      "shadowVisionMask e1 = shadowVisionMask e"
    using ev_refreshSource(1,2,5)[of this e ?h0] rf by simp_all
  obtain e' where e': "ev this' = Some e'" "e' = e1\<lparr>shadowVisionMask := shadowVisionMask e'\<rparr>"
    using changedPositionBranch_effect(2)[OF c] by (cases "ev this'") auto
  have r: "shadowRenderer e' = shadowRenderer e1" "shadowVisionLOSRenderer e' = shadowVisionLOSRenderer e1"
    by (subst e'(2), simp)+
  have m: "map_option vm_scale (shadowVisionMask e') = map_option vm_scale (shadowVisionMask e1)"
    using changedPositionBranch_effect(3)[OF c] e'(1) by simp
  show ?thesis
    using n filter_quiet[OF xs(2)] ys(2) Some e'(1) r m e1 by simp
qed

text \<open>Position and radius of the first light changed together: the texture stays 400 by 400.\<close>

theorem position_change_never_resizes_witness:
  "(''x'' \<in> {''x'', ''radius''} \<or> ''y'' \<in> {''x'', ''radius''})
   \<and> filter is_resize (new_events host0 (snd (snd (configureRenderedPointSource scene_canvas
        {''x'', ''radius''} ((light 60 50)\<lparr>ev := Some first_cache\<rparr>) host0)))) = []
   \<and> map_option shadowRenderer (ev (fst (snd (configureRenderedPointSource scene_canvas
        {''x'', ''radius''} ((light 60 50)\<lparr>ev := Some first_cache\<rparr>) host0))))
       = Some (Some first_renderer)"
proof -
  let ?s = "(light 60 50)\<lparr>ev := Some first_cache\<rparr>"
  let ?res = "configureRenderedPointSource scene_canvas {''x'', ''radius''} ?s host0"
  have a: "''x'' \<in> {''x'', ''radius''} \<or> ''y'' \<in> {''x'', ''radius''}" by simp
  have c: "?res = (fst ?res, fst (snd ?res), snd (snd ?res))" by simp
  have e: "map_option shadowRenderer (ev ?s) = Some (Some first_renderer)"
    by (simp add: first_cache_def)
  show ?thesis
    using position_change_never_resizes[OF a c] a unfolding e by simp
qed

text \<open>
  Claim C10. \<open>addShadowFragmentCode\<close> always returns a string and never throws; when a
  step of the patch chain throws, the string returned is the source it was given.
\<close>

theorem addShadowFragmentCode_never_throws:
  "(\<exists>s. addShadowFragmentCode sp source = Inr s)
   \<and> (\<forall>e. patch_chain sp source = Inl e \<longrightarrow> addShadowFragmentCode sp source = Inr source)"
  by (simp add: addShadowFragmentCode_def split: sum.split)

text \<open>With a patcher whose \<open>replace\<close> throws, the fragment source comes back unchanged.\<close>

theorem addShadowFragmentCode_never_throws_witness:
  "patch_chain throwing_patcher ''void main() { gl_FragColor = c; }'' = Inl (Exception ''no match'')
   \<and> addShadowFragmentCode throwing_patcher ''void main() { gl_FragColor = c; }''
       = Inr ''void main() { gl_FragColor = c; }''"
proof -
  have a: "patch_chain throwing_patcher ''void main() { gl_FragColor = c; }'' = Inl (Exception ''no match'')"
    by (simp add: patch_chain_def throwing_patcher_def and_then_def)
  show ?thesis
    using addShadowFragmentCode_never_throws[of throwing_patcher "''void main() { gl_FragColor = c; }''"] a
    by simp
qed

end
